theory Spec2Isabelle
  imports Complex_Main
begin

section \<open>Exceptions\<close>

text \<open>
  The notebooks define no exception class of their own. Every exception that can reach a
  caller is raised by Python itself or by one of the libraries the notebooks call; the
  model keeps them as values of one datatype, and a function that may raise returns
  \<open>error + 'a\<close> with \<open>Inl\<close> for the exception.
\<close>

datatype error =
    ZeroDivisionError
  | ValueError
  | TypeError
  | OpenMMException
  | EnergyNotRequested
  | LibraryError string

section \<open>Python and numpy helpers\<close>

text \<open>
  \<open>range(n)\<close> for an integer \<open>n\<close>: the integers from 0 up to \<open>n - 1\<close>, none when \<open>n\<close> is
  zero or negative.
\<close>

definition py_range :: "int \<Rightarrow> int list" where
  "py_range n = map int [0..<nat n]"

text \<open>\<open>f(*args)\<close> for a function of three arguments: any other number of them raises.\<close>

definition call_star3 ::
  "('a \<Rightarrow> 'a \<Rightarrow> 'a \<Rightarrow> error + 'b) \<Rightarrow> 'a list \<Rightarrow> error + 'b" where
  "call_star3 f args = (case args of [a, b, c] \<Rightarrow> f a b c | _ \<Rightarrow> Inl TypeError)"

text \<open>\<open>np.diag\<close> of a list: the square matrix, as its list of rows, with the list on the
  diagonal and zero elsewhere.\<close>

definition np_diag :: "real list \<Rightarrow> real list list" where
  "np_diag d =
     map (\<lambda>i. map (\<lambda>j. if i = j then d ! i else 0) [0..<length d]) [0..<length d]"

text \<open>
  Quantities are numbers in the library's own units (nanometre, picosecond, atomic mass
  unit, kJ/mol, elementary charge), so a unit is the number it is worth: an angstrom is a
  tenth of a nanometre. Masses, box sizes, positions, velocities and energies are exact
  reals; the distances of the non-bonded force, which the code computes by floating-point
  products, are doubles (next section).
\<close>

definition angstrom :: real where
  "angstrom = 1 / 10"

section \<open>Python floats\<close>

text \<open>
  A Python \<open>float\<close> is an IEEE 754 double: a finite value, an infinity or NaN. The finite
  values are the integer multiples of a power of two, the unit in the last place, with at
  most 53 binary digits; the smallest unit is 2 to the power -1074. (The two zeros are
  not told apart.)
\<close>

datatype double = Finite real | PosInf | NegInf | NaN

text \<open>
  The exponent of the unit in the last place at a real number, and rounding to the
  nearest multiple of that unit, a tie going to the even multiple.
\<close>

definition ulp_exponent :: "real \<Rightarrow> int" where
  "ulp_exponent x = (if \<bar>x\<bar> < 2 powi (- 1022) then - 1074 else \<lfloor>log 2 \<bar>x\<bar>\<rfloor> - 52)"

definition round_half_even :: "real \<Rightarrow> int" where
  "round_half_even r =
     (let f = \<lfloor>r\<rfloor>
      in if r - of_int f < 1 / 2 then f
         else if 1 / 2 < r - of_int f then f + 1
         else if even f then f else f + 1)"

definition round_to_double :: "real \<Rightarrow> real" where
  "round_to_double x =
     of_int (round_half_even (x / 2 powi ulp_exponent x)) * 2 powi ulp_exponent x"

text \<open>
  The smallest positive double and the largest finite one. A result that rounds beyond
  the largest overflows to an infinity. A real number is a double when rounding leaves it
  as it is and it does not overflow.
\<close>

definition tiny :: real where
  "tiny = 2 powi (- 1074)"

definition max_double :: real where
  "max_double = (2 ^ 53 - 1) * 2 ^ 971"

definition is_double :: "real \<Rightarrow> bool" where
  "is_double x \<longleftrightarrow> round_to_double x = x \<and> \<bar>x\<bar> \<le> max_double"

definition double_of_real :: "real \<Rightarrow> double" where
  "double_of_real x =
     (let r = round_to_double x
      in if max_double < r then PosInf else if r < - max_double then NegInf else Finite r)"

text \<open>The product \<open>*\<close> and the comparison \<open><\<close> of two floats.\<close>

fun double_mul :: "double \<Rightarrow> double \<Rightarrow> double" where
  "double_mul (Finite a) (Finite b) = double_of_real (a * b)"
| "double_mul NaN y = NaN"
| "double_mul x NaN = NaN"
| "double_mul PosInf (Finite b) = (if b = 0 then NaN else if 0 < b then PosInf else NegInf)"
| "double_mul NegInf (Finite b) = (if b = 0 then NaN else if 0 < b then NegInf else PosInf)"
| "double_mul (Finite a) PosInf = (if a = 0 then NaN else if 0 < a then PosInf else NegInf)"
| "double_mul (Finite a) NegInf = (if a = 0 then NaN else if 0 < a then NegInf else PosInf)"
| "double_mul PosInf PosInf = PosInf"
| "double_mul PosInf NegInf = NegInf"
| "double_mul NegInf PosInf = NegInf"
| "double_mul NegInf NegInf = PosInf"

fun double_less :: "double \<Rightarrow> double \<Rightarrow> bool" where
  "double_less (Finite a) (Finite b) \<longleftrightarrow> a < b"
| "double_less (Finite a) PosInf \<longleftrightarrow> True"
| "double_less NegInf (Finite b) \<longleftrightarrow> True"
| "double_less NegInf PosInf \<longleftrightarrow> True"
| "double_less x y \<longleftrightarrow> False"

section \<open>The library's \<open>System\<close>, \<open>NonbondedForce\<close> and \<open>Topology\<close>\<close>

text \<open>
  The three classes belong to the simulation library; the model keeps of each what the
  notebooks' functions set, with the value the library's constructor gives to each field.
  A \<open>System\<close> holds the mass of each particle, in the order of \<open>addParticle\<close>, and the
  three default periodic box vectors.
\<close>

text \<open>
  The library accepts three box vectors only in reduced form: the first along x, the
  second in the x-y plane, a positive diagonal, and off-diagonal entries of at most half
  the diagonal entry of their column. \<open>System.setDefaultPeriodicBoxVectors\<close> raises its
  \<open>OpenMMException\<close> otherwise, \<open>Topology.setPeriodicBoxVectors\<close> a \<open>ValueError\<close>. (Vectors
  that are not three rows of three numbers are refused here with the same exception.)
\<close>

definition reduced_box :: "real list list \<Rightarrow> bool" where
  "reduced_box vectors \<longleftrightarrow>
     (case vectors of
        [[a1, a2, a3], [b1, b2, b3], [c1, c2, c3]] \<Rightarrow>
          a2 = 0 \<and> a3 = 0 \<and> b3 = 0 \<and>
          0 < a1 \<and> 0 < b2 \<and> 0 < c3 \<and>
          2 * \<bar>b1\<bar> \<le> a1 \<and> 2 * \<bar>c1\<bar> \<le> a1 \<and> 2 * \<bar>c2\<bar> \<le> b2
      | _ \<Rightarrow> False)"

record System =
  particles :: "real list"
  defaultPeriodicBoxVectors :: "real list list"

definition mm_System :: System where
  "mm_System =
     \<lparr>particles = [], defaultPeriodicBoxVectors = [[2, 0, 0], [0, 2, 0], [0, 0, 2]]\<rparr>"

definition System_addParticle :: "System \<Rightarrow> real \<Rightarrow> System" where
  "System_addParticle system mass = system\<lparr>particles := particles system @ [mass]\<rparr>"

definition setDefaultPeriodicBoxVectors ::
  "System \<Rightarrow> real list \<Rightarrow> real list \<Rightarrow> real list \<Rightarrow> error + System" where
  "setDefaultPeriodicBoxVectors system a b c =
     (if reduced_box [a, b, c] then Inr (system\<lparr>defaultPeriodicBoxVectors := [a, b, c]\<rparr>)
      else Inl OpenMMException)"

datatype NonbondedMethod = NoCutoff | CutoffNonPeriodic | CutoffPeriodic | Ewald | PME | LJPME

text \<open>
  The parameters of a particle are its charge, sigma and epsilon, in that order. They and
  the two distances are floats; the setters of the force store what they are given.
\<close>

record NonbondedForce =
  nonbondedMethod :: NonbondedMethod
  particleParameters :: "(double \<times> double \<times> double) list"
  cutoffDistance :: double
  useSwitchingFunction :: bool
  switchingDistance :: double
  useDispersionCorrection :: bool

definition mm_NonbondedForce :: NonbondedForce where
  "mm_NonbondedForce =
     \<lparr>nonbondedMethod = NoCutoff, particleParameters = [], cutoffDistance = Finite 1,
      useSwitchingFunction = False, switchingDistance = Finite (- 1),
      useDispersionCorrection = True\<rparr>"

definition setNonbondedMethod :: "NonbondedForce \<Rightarrow> NonbondedMethod \<Rightarrow> NonbondedForce" where
  "setNonbondedMethod force m = force\<lparr>nonbondedMethod := m\<rparr>"

definition Force_addParticle ::
  "NonbondedForce \<Rightarrow> double \<Rightarrow> double \<Rightarrow> double \<Rightarrow> NonbondedForce" where
  "Force_addParticle force charge sigma epsilon =
     force\<lparr>particleParameters := particleParameters force @ [(charge, sigma, epsilon)]\<rparr>"

definition setCutoffDistance :: "NonbondedForce \<Rightarrow> double \<Rightarrow> NonbondedForce" where
  "setCutoffDistance force d = force\<lparr>cutoffDistance := d\<rparr>"

definition setUseSwitchingFunction :: "NonbondedForce \<Rightarrow> bool \<Rightarrow> NonbondedForce" where
  "setUseSwitchingFunction force u = force\<lparr>useSwitchingFunction := u\<rparr>"

definition setSwitchingDistance :: "NonbondedForce \<Rightarrow> double \<Rightarrow> NonbondedForce" where
  "setSwitchingDistance force d = force\<lparr>switchingDistance := d\<rparr>"

definition setUseDispersionCorrection :: "NonbondedForce \<Rightarrow> bool \<Rightarrow> NonbondedForce" where
  "setUseDispersionCorrection force u = force\<lparr>useDispersionCorrection := u\<rparr>"

text \<open>
  A \<open>Topology\<close> holds chains, residues and atoms. A residue or a chain is referred to by
  its index in the topology, which is what \<open>addChain\<close> and \<open>addResidue\<close> return here; a
  residue records the chain it is in and the atoms added to it, an atom its residue.
  The source's variable \<open>top\<close> is \<open>topo\<close> here.
\<close>

record Residue =
  residue_name :: string
  residue_chain :: nat
  residue_id :: int
  residue_atoms :: "nat list"

record Atom =
  atom_name :: string
  atom_element :: string
  atom_residue :: nat

record Topology =
  chains :: "nat list"
  residues :: "Residue list"
  atoms :: "Atom list"
  periodicBoxVectors :: "real list list option"

definition app_Topology :: Topology where
  "app_Topology = \<lparr>chains = [], residues = [], atoms = [], periodicBoxVectors = None\<rparr>"

definition addChain :: "Topology \<Rightarrow> nat \<times> Topology" where
  "addChain topo = (length (chains topo), topo\<lparr>chains := chains topo @ [length (chains topo)]\<rparr>)"

definition addResidue :: "Topology \<Rightarrow> string \<Rightarrow> nat \<Rightarrow> int \<Rightarrow> nat \<times> Topology" where
  "addResidue topo name chain ident =
     (length (residues topo),
      topo\<lparr>residues := residues topo @
             [\<lparr>residue_name = name, residue_chain = chain, residue_id = ident,
               residue_atoms = []\<rparr>]\<rparr>)"

text \<open>
  \<open>addAtom\<close> is only ever called with a residue that \<open>addResidue\<close> has just returned, so
  the residue exists; the update of a list leaves it unchanged at an index it has not.
\<close>

definition addAtom :: "Topology \<Rightarrow> string \<Rightarrow> string \<Rightarrow> nat \<Rightarrow> Topology" where
  "addAtom topo name element residue =
     topo\<lparr>atoms := atoms topo @
            [\<lparr>atom_name = name, atom_element = element, atom_residue = residue\<rparr>],
         residues := (residues topo)
            [residue := (residues topo ! residue)
               \<lparr>residue_atoms := residue_atoms (residues topo ! residue) @ [length (atoms topo)]\<rparr>]\<rparr>"

definition Element_getBySymbol :: "string \<Rightarrow> string" where
  "Element_getBySymbol symbol = symbol"

definition setPeriodicBoxVectors :: "Topology \<Rightarrow> real list list \<Rightarrow> error + Topology" where
  "setPeriodicBoxVectors topo vectors =
     (if reduced_box vectors then Inr (topo\<lparr>periodicBoxVectors := Some vectors\<rparr>)
      else Inl ValueError)"

section \<open>The functions that set up a simulation\<close>

text \<open>
  \<open>initialize_system\<close> computes \<open>box_vectors\<close> twice; the first value is never used.
  The box vectors reach the library as \<open>*box_vectors\<close>, one argument for each row, and the
  library raises when it refuses them. In \<open>create_NonBonndedForce\<close> the literals \<open>3.0\<close> and
  \<open>2.5\<close> are floats and the two products are floating-point products, with \<open>sigma\<close>,
  \<open>epsilon\<close> and \<open>charge\<close> in the library's units.
\<close>

definition initialize_system :: "int \<Rightarrow> real \<Rightarrow> real \<Rightarrow> error + System" where
  "initialize_system n_particles mass box_size =
     (let box_vectors = map (map (\<lambda>x. x * angstrom))
                          (np_diag (map (\<lambda>i. box_size / angstrom) (py_range 3)));
          system = mm_System;
          system = foldl (\<lambda>system index. System_addParticle system mass) system
                     (py_range n_particles);
          box_vectors = np_diag (map (\<lambda>i. box_size) (py_range 3))
      in call_star3 (setDefaultPeriodicBoxVectors system) box_vectors)"

definition create_NonBonndedForce ::
  "int \<Rightarrow> double \<Rightarrow> double \<Rightarrow> double \<Rightarrow> NonbondedForce" where
  "create_NonBonndedForce n_particles sigma epsilon charge =
     (let force = mm_NonbondedForce;
          force = setNonbondedMethod force CutoffPeriodic;
          force = foldl (\<lambda>force index. Force_addParticle force charge sigma epsilon) force
                    (py_range n_particles);
          force = setCutoffDistance force (double_mul (Finite 3.0) sigma);
          force = setUseSwitchingFunction force True;
          force = setSwitchingDistance force (double_mul (Finite 2.5) sigma);
          force = setUseDispersionCorrection force True
      in force)"

definition create_topology :: "int \<Rightarrow> real \<Rightarrow> error + Topology" where
  "create_topology n_particles box_size =
     (let topo = app_Topology;
          (chain, topo) = addChain topo;
          topo = foldl (\<lambda>topo i.
                   (let (residue, topo) = addResidue topo ''Ar'' chain i
                    in addAtom topo ''Ar'' (Element_getBySymbol ''Ar'') residue))
                 topo (py_range n_particles);
          box_vectors = map (map (\<lambda>x. x * angstrom))
                          (np_diag (map (\<lambda>i. box_size / angstrom) (py_range 3)))
      in setPeriodicBoxVectors topo box_vectors)"

text \<open>
  The residue and the atom that iteration \<open>i\<close> of the loop of \<open>create_topology\<close> leaves in
  the topology (used to state what the loop builds).
\<close>

definition ar_residue :: "nat \<Rightarrow> nat \<Rightarrow> Residue" where
  "ar_residue chain i =
     \<lparr>residue_name = ''Ar'', residue_chain = chain, residue_id = int i, residue_atoms = [i]\<rparr>"

definition ar_atom :: "nat \<Rightarrow> Atom" where
  "ar_atom i = \<lparr>atom_name = ''Ar'', atom_element = ''Ar'', atom_residue = i\<rparr>"

section \<open>The visualisation helper \<open>boxvectors2length\<close>\<close>

text \<open>
  Division raises on a zero divisor, \<open>acos\<close> outside of \<open>[-1, 1]\<close>, and the unpacking of
  the argument when it is not three rows of three numbers. \<open>sqrt\<close> is only applied to sums
  of squares. Angles come back in degrees.
\<close>

definition py_div :: "real \<Rightarrow> real \<Rightarrow> error + real" where
  "py_div a b = (if b = 0 then Inl ZeroDivisionError else Inr (a / b))"

definition acos :: "real \<Rightarrow> error + real" where
  "acos x = (if - 1 \<le> x \<and> x \<le> 1 then Inr (arccos x) else Inl ValueError)"

definition in_degrees :: "real \<Rightarrow> real" where
  "in_degrees x = x * 180 / pi"

definition then_do :: "error + 'a \<Rightarrow> ('a \<Rightarrow> error + 'b) \<Rightarrow> error + 'b" where
  "then_do r f = (case r of Inl e \<Rightarrow> Inl e | Inr x \<Rightarrow> f x)"

definition boxvectors2length ::
  "real list list \<Rightarrow> error + ((real \<times> real \<times> real) \<times> (real \<times> real \<times> real))" where
  "boxvectors2length box_vectors =
     (case box_vectors of
        [[lx, _, _], [xy, ly, _], [xz, yz, lz]] \<Rightarrow>
          (let a = lx;
               b = sqrt (ly\<^sup>2 + xy\<^sup>2);
               c = sqrt (lz\<^sup>2 + xz\<^sup>2 + yz\<^sup>2)
           in then_do (py_div (xy * xz + ly * yz) (b * c)) (\<lambda>q.
              then_do (acos q) (\<lambda>alpha.
              then_do (py_div xz c) (\<lambda>q.
              then_do (acos q) (\<lambda>beta.
              then_do (py_div yz b) (\<lambda>q.
              then_do (acos q) (\<lambda>gamma.
              Inr ((a, b, c), (in_degrees alpha, in_degrees beta, in_degrees gamma)))))))))
      | _ \<Rightarrow> Inl ValueError)"

section \<open>The visualisation helper \<open>viz_traj\<close>\<close>

text \<open>
  The viewer widget of the visualisation library, as far as \<open>viz_traj\<close> sets it: the
  trajectory it shows, whether it uses the trajectory's box, the representations added to
  it, its camera and whether the view has been centred. The trajectory itself is of no
  concern here.
\<close>

record 't NGLWidget =
  widget_trajectory :: 't
  widget_use_box :: bool
  representations :: "(string \<times> string) list"
  camera :: string
  centered :: bool

definition show_mdtraj :: "'t \<Rightarrow> bool \<Rightarrow> 't NGLWidget" where
  "show_mdtraj traj use_box =
     \<lparr>widget_trajectory = traj, widget_use_box = use_box, representations = [],
      camera = ''perspective'', centered = False\<rparr>"

definition add_spacefill :: "'t NGLWidget \<Rightarrow> string \<Rightarrow> 't NGLWidget" where
  "add_spacefill view selection =
     view\<lparr>representations := representations view @ [(''spacefill'', selection)]\<rparr>"

definition add_unitcell :: "'t NGLWidget \<Rightarrow> 't NGLWidget" where
  "add_unitcell view = view\<lparr>representations := representations view @ [(''unitcell'', ''all'')]\<rparr>"

definition set_camera :: "'t NGLWidget \<Rightarrow> string \<Rightarrow> 't NGLWidget" where
  "set_camera view c = view\<lparr>camera := c\<rparr>"

definition center :: "'t NGLWidget \<Rightarrow> 't NGLWidget" where
  "center view = view\<lparr>centered := True\<rparr>"

definition viz_traj :: "'t \<Rightarrow> 't NGLWidget" where
  "viz_traj traj =
     (let view = show_mdtraj traj True;
          view = add_spacefill view ''all'';
          view = add_unitcell view;
          view = set_camera view ''orthographic'';
          view = center view
      in view)"

section \<open>The reporter \<open>EnergyReporter\<close>\<close>

text \<open>
  What the reporter reads of its two arguments: of the simulation only the attribute
  \<open>currentStep\<close>, of the state only the two energies. A state built without
  \<open>getEnergy=True\<close> holds no energies and its getters raise; energies are stored in
  kJ/mol, so \<open>value_in_unit(kilojoules_per_mole)\<close> reads the stored number. Energies are
  exact reals here: rounding of floating-point sums is outside the model.
\<close>

record simulation =
  currentStep :: int

record state =
  energy :: "(real \<times> real) option"

definition getPotentialEnergy :: "state \<Rightarrow> error + real" where
  "getPotentialEnergy st =
     (case energy st of None \<Rightarrow> Inl EnergyNotRequested | Some (p, k) \<Rightarrow> Inr p)"

definition getKineticEnergy :: "state \<Rightarrow> error + real" where
  "getKineticEnergy st =
     (case energy st of None \<Rightarrow> Inl EnergyNotRequested | Some (p, k) \<Rightarrow> Inr k)"

text \<open>
  The attributes \<open>self._reportInterval\<close>, \<open>self._pe\<close>, \<open>self._ke\<close> and \<open>self._te\<close>
  of the class.
\<close>

record EnergyReporter =
  self_reportInterval :: int
  self_pe :: "real list"
  self_ke :: "real list"
  self_te :: "real list"

definition EnergyReporter_init :: "int \<Rightarrow> EnergyReporter" where
  "EnergyReporter_init reportInterval =
     \<lparr>self_reportInterval = reportInterval, self_pe = [], self_ke = [], self_te = []\<rparr>"

text \<open>Python's \<open>%\<close> on integers: the sign follows the divisor, a zero divisor raises.\<close>

definition py_mod :: "int \<Rightarrow> int \<Rightarrow> error + int" where
  "py_mod a b = (if b = 0 then Inl ZeroDivisionError else Inr (a mod b))"

text \<open>
  The returned tuple is \<open>(steps, False, False, False, True, None)\<close>: the number of steps
  to the next report, then whether positions, velocities, forces and energies are to be
  fetched, then \<open>enforcePeriodicBox\<close>, left to the simulation's default by \<open>None\<close>.
\<close>

type_synonym next_report = "int \<times> bool \<times> bool \<times> bool \<times> bool \<times> bool option"

definition describeNextReport :: "EnergyReporter \<Rightarrow> simulation \<Rightarrow> error + next_report" where
  "describeNextReport self simulation =
     (case py_mod (currentStep simulation) (self_reportInterval self) of
        Inl e \<Rightarrow> Inl e
      | Inr r \<Rightarrow>
          (let steps = self_reportInterval self - r
           in Inr (steps, False, False, False, True, None)))"

text \<open>
  \<open>report\<close> reads both energies before it appends anything, so a getter that raises
  leaves the three lists as they were.
\<close>

definition report :: "EnergyReporter \<Rightarrow> simulation \<Rightarrow> state \<Rightarrow> error + EnergyReporter" where
  "report self simulation st =
     (case getPotentialEnergy st of
        Inl e \<Rightarrow> Inl e
      | Inr pe \<Rightarrow>
          (case getKineticEnergy st of
             Inl e \<Rightarrow> Inl e
           | Inr ke \<Rightarrow>
               Inr (self\<lparr>self_pe := self_pe self @ [pe],
                         self_ke := self_ke self @ [ke],
                         self_te := self_te self @ [pe + ke]\<rparr>)))"

text \<open>
  The reporter object after one call of \<open>report\<close>, whether the call returned or raised,
  and after a sequence of calls, one per simulation and state of the list.
\<close>

definition after_report :: "EnergyReporter \<Rightarrow> simulation \<times> state \<Rightarrow> EnergyReporter" where
  "after_report self c =
     (case report self (fst c) (snd c) of Inl e \<Rightarrow> self | Inr self' \<Rightarrow> self')"

definition after_reports :: "EnergyReporter \<Rightarrow> (simulation \<times> state) list \<Rightarrow> EnergyReporter" where
  "after_reports self cs = foldl after_report self cs"

text \<open>The three lists are consistent: equal lengths, and each total is the sum.\<close>

definition energies_consistent :: "EnergyReporter \<Rightarrow> bool" where
  "energies_consistent r \<longleftrightarrow>
     length (self_pe r) = length (self_ke r) \<and> length (self_te r) = length (self_pe r) \<and>
     self_te r = map2 (+) (self_pe r) (self_ke r)"

section \<open>The integrator \<open>EulerIntegrator\<close>\<close>

subsection \<open>Expressions of the library's \<open>CustomIntegrator\<close>\<close>

text \<open>
  \<open>EulerIntegrator\<close> hands its update rules to the library as strings. The model reads
  them as the library does: names and the four binary operators, \<open>*\<close> and \<open>/\<close> binding
  tighter than \<open>+\<close> and \<open>-\<close>, each level associating to the left. A string outside this
  fragment (a number, a parenthesis, a function call) has no parse here.
\<close>

datatype token = Name string | Operator char

definition is_letter :: "char \<Rightarrow> bool" where
  "is_letter c \<longleftrightarrow> c \<in> set ''abcdefghijklmnopqrstuvwxyzABCDEFGHIJKLMNOPQRSTUVWXYZ_''"

definition is_operator :: "char \<Rightarrow> bool" where
  "is_operator c \<longleftrightarrow> c \<in> set ''+-*/''"

fun tokenize :: "string \<Rightarrow> token list option" where
  "tokenize [] = Some []"
| "tokenize (c # cs) =
     (case tokenize cs of
        None \<Rightarrow> None
      | Some ts \<Rightarrow>
          (if is_letter c then
             (case ts of
                Name n # ts' \<Rightarrow>
                  (if cs \<noteq> [] \<and> is_letter (hd cs) then Some (Name (c # n) # ts')
                   else Some (Name [c] # ts))
              | _ \<Rightarrow> Some (Name [c] # ts))
           else if is_operator c then Some (Operator c # ts)
           else None))"

text \<open>
  A chain of operators of one level is cut at its operators, each piece is parsed one
  level down, and the pieces are combined from the left.
\<close>

datatype expr =
    Var string
  | Add expr expr
  | Sub expr expr
  | Mul expr expr
  | Div expr expr

fun split_at_ops :: "string \<Rightarrow> token list \<Rightarrow> token list \<times> (char \<times> token list) list" where
  "split_at_ops ops [] = ([], [])"
| "split_at_ops ops (t # ts) =
     (case split_at_ops ops ts of
        (first, rest) \<Rightarrow>
          (case t of
             Operator c \<Rightarrow>
               (if c \<in> set ops then ([], (c, first) # rest) else (t # first, rest))
           | Name n \<Rightarrow> (t # first, rest)))"

definition binary :: "char \<Rightarrow> expr \<Rightarrow> expr \<Rightarrow> expr" where
  "binary c a b =
     (if c = CHR ''+'' then Add a b
      else if c = CHR ''-'' then Sub a b
      else if c = CHR ''*'' then Mul a b
      else Div a b)"

fun parse_chain ::
  "(token list \<Rightarrow> expr option) \<Rightarrow> expr option \<Rightarrow> (char \<times> token list) list \<Rightarrow> expr option" where
  "parse_chain sub acc [] = acc"
| "parse_chain sub acc ((c, ts) # rest) =
     (case (acc, sub ts) of
        (Some a, Some b) \<Rightarrow> parse_chain sub (Some (binary c a b)) rest
      | _ \<Rightarrow> None)"

definition parse_factor :: "token list \<Rightarrow> expr option" where
  "parse_factor ts = (case ts of [Name n] \<Rightarrow> Some (Var n) | _ \<Rightarrow> None)"

definition parse_term :: "token list \<Rightarrow> expr option" where
  "parse_term ts =
     (case split_at_ops ''*/'' ts of
        (first, rest) \<Rightarrow> parse_chain parse_factor (parse_factor first) rest)"

definition parse_sum :: "token list \<Rightarrow> expr option" where
  "parse_sum ts =
     (case split_at_ops ''+-'' ts of
        (first, rest) \<Rightarrow> parse_chain parse_term (parse_term first) rest)"

definition parse_expression :: "string \<Rightarrow> expr option" where
  "parse_expression s = (case tokenize s of None \<Rightarrow> None | Some ts \<Rightarrow> parse_sum ts)"

text \<open>
  The value of an expression, given the values of its names; none when a name has no
  value or a divisor is zero (the library then computes no real number).
\<close>

fun eval :: "(string \<Rightarrow> real option) \<Rightarrow> expr \<Rightarrow> real option" where
  "eval env (Var n) = env n"
| "eval env (Add a b) =
     (case (eval env a, eval env b) of (Some p, Some q) \<Rightarrow> Some (p + q) | _ \<Rightarrow> None)"
| "eval env (Sub a b) =
     (case (eval env a, eval env b) of (Some p, Some q) \<Rightarrow> Some (p - q) | _ \<Rightarrow> None)"
| "eval env (Mul a b) =
     (case (eval env a, eval env b) of (Some p, Some q) \<Rightarrow> Some (p * q) | _ \<Rightarrow> None)"
| "eval env (Div a b) =
     (case (eval env a, eval env b) of
        (Some p, Some q) \<Rightarrow> (if q = 0 then None else Some (p / q))
      | _ \<Rightarrow> None)"

subsection \<open>The integrator as the list of its computations\<close>

text \<open>
  A \<open>CustomIntegrator\<close> is its step size and the computations added to it, in the order
  they were added; each \<open>add...\<close> method appends one.
\<close>

datatype computation =
    UpdateContextState
  | ComputePerDof string string
  | ConstrainPositions
  | ConstrainVelocities

record CustomIntegrator =
  stepSize :: real
  computations :: "computation list"

definition mm_CustomIntegrator :: "real \<Rightarrow> CustomIntegrator" where
  "mm_CustomIntegrator timestep = \<lparr>stepSize = timestep, computations = []\<rparr>"

definition addUpdateContextState :: "CustomIntegrator \<Rightarrow> CustomIntegrator" where
  "addUpdateContextState self = self\<lparr>computations := computations self @ [UpdateContextState]\<rparr>"

definition addComputePerDof :: "CustomIntegrator \<Rightarrow> string \<Rightarrow> string \<Rightarrow> CustomIntegrator" where
  "addComputePerDof self variable expression =
     self\<lparr>computations := computations self @ [ComputePerDof variable expression]\<rparr>"

definition addConstrainPositions :: "CustomIntegrator \<Rightarrow> CustomIntegrator" where
  "addConstrainPositions self = self\<lparr>computations := computations self @ [ConstrainPositions]\<rparr>"

definition addConstrainVelocities :: "CustomIntegrator \<Rightarrow> CustomIntegrator" where
  "addConstrainVelocities self = self\<lparr>computations := computations self @ [ConstrainVelocities]\<rparr>"

text \<open>
  The class \<open>EulerIntegrator\<close>: its \<open>__init__\<close> calls the base class's \<open>__init__\<close> and then
  adds five computations. The step size is in picoseconds; the default argument is one
  femtosecond.
\<close>

definition femtoseconds :: real where
  "femtoseconds = 1 / 1000"

definition EulerIntegrator :: "real \<Rightarrow> CustomIntegrator" where
  "EulerIntegrator timestep =
     (let self = mm_CustomIntegrator timestep;
          self = addUpdateContextState self;
          self = addComputePerDof self ''v'' ''v+dt*f/m'';
          self = addComputePerDof self ''x'' ''x+dt*v'';
          self = addConstrainPositions self;
          self = addConstrainVelocities self
      in self)"

definition EulerIntegrator_default :: CustomIntegrator where
  "EulerIntegrator_default = EulerIntegrator (1.0 * femtoseconds)"

subsection \<open>One integration step\<close>

text \<open>
  A context holds a position and a velocity for each degree of freedom. What a step needs
  of the system beside them: the mass of each degree of freedom, the force on it at given
  positions, what the forces do when they are let to update the context state, and the
  two projections onto the constraints. The library runs the computations of an
  integrator one after the other, each on the context the one before has left; a
  per-degree-of-freedom computation evaluates its expression for every degree of freedom
  with \<open>x\<close>, \<open>v\<close>, \<open>f\<close>, \<open>m\<close> and \<open>dt\<close> at their current values and then stores the results
  in the variable it names. It skips the degrees of freedom of a massless particle, which
  keep their value.
\<close>

record Context =
  positions :: "real list"
  velocities :: "real list"

record dynamics =
  masses :: "real list"
  force_on :: "real list \<Rightarrow> nat \<Rightarrow> real"
  updateContextState :: "Context \<Rightarrow> Context"
  applyConstraints :: "real list \<Rightarrow> real list"
  applyVelocityConstraints :: "real list \<Rightarrow> real list \<Rightarrow> real list"

definition dof_variables :: "dynamics \<Rightarrow> real \<Rightarrow> Context \<Rightarrow> nat \<Rightarrow> string \<Rightarrow> real option" where
  "dof_variables sys dt c i n =
     (if n = ''x'' then Some (positions c ! i)
      else if n = ''v'' then Some (velocities c ! i)
      else if n = ''f'' then Some (force_on sys (positions c) i)
      else if n = ''m'' then Some (masses sys ! i)
      else if n = ''dt'' then Some dt
      else None)"

fun all_some :: "'a option list \<Rightarrow> 'a list option" where
  "all_some [] = Some []"
| "all_some (x # xs) =
     (case (x, all_some xs) of (Some y, Some ys) \<Rightarrow> Some (y # ys) | _ \<Rightarrow> None)"

definition well_formed :: "dynamics \<Rightarrow> Context \<Rightarrow> bool" where
  "well_formed sys c \<longleftrightarrow>
     length (positions c) = length (masses sys) \<and> length (velocities c) = length (masses sys)"

definition compute_dof ::
  "dynamics \<Rightarrow> real \<Rightarrow> Context \<Rightarrow> expr \<Rightarrow> real list \<Rightarrow> nat \<Rightarrow> real option" where
  "compute_dof sys dt c e current i =
     (if masses sys ! i = 0 then Some (current ! i) else eval (dof_variables sys dt c i) e)"

definition run_computation :: "dynamics \<Rightarrow> real \<Rightarrow> computation \<Rightarrow> Context \<Rightarrow> Context option" where
  "run_computation sys dt step c =
     (case step of
        UpdateContextState \<Rightarrow> Some (updateContextState sys c)
      | ComputePerDof variable expression \<Rightarrow>
          (case parse_expression expression of
             None \<Rightarrow> None
           | Some e \<Rightarrow>
               if \<not> well_formed sys c then None
               else if variable = ''x'' then
                 map_option (\<lambda>values. c\<lparr>positions := values\<rparr>)
                   (all_some (map (compute_dof sys dt c e (positions c))
                                [0..<length (masses sys)]))
               else if variable = ''v'' then
                 map_option (\<lambda>values. c\<lparr>velocities := values\<rparr>)
                   (all_some (map (compute_dof sys dt c e (velocities c))
                                [0..<length (masses sys)]))
               else None)
      | ConstrainPositions \<Rightarrow> Some (c\<lparr>positions := applyConstraints sys (positions c)\<rparr>)
      | ConstrainVelocities \<Rightarrow>
          Some (c\<lparr>velocities := applyVelocityConstraints sys (positions c) (velocities c)\<rparr>))"

fun run_computations ::
  "dynamics \<Rightarrow> real \<Rightarrow> computation list \<Rightarrow> Context \<Rightarrow> Context option" where
  "run_computations sys dt [] c = Some c"
| "run_computations sys dt (step # steps) c =
     (case run_computation sys dt step c of
        None \<Rightarrow> None
      | Some c' \<Rightarrow> run_computations sys dt steps c')"

definition integrator_step :: "dynamics \<Rightarrow> CustomIntegrator \<Rightarrow> Context \<Rightarrow> Context option" where
  "integrator_step sys integrator c =
     run_computations sys (stepSize integrator) (computations integrator) c"

text \<open>
  A system without constraints whose forces leave the context state alone (as the
  notebooks' \<open>NonbondedForce\<close> does): both projections and the update are the identity.
\<close>

definition unconstrained :: "real list \<Rightarrow> (real list \<Rightarrow> nat \<Rightarrow> real) \<Rightarrow> dynamics" where
  "unconstrained ms force =
     \<lparr>masses = ms, force_on = force, updateContextState = (\<lambda>c. c),
      applyConstraints = (\<lambda>xs. xs), applyVelocityConstraints = (\<lambda>xs vs. vs)\<rparr>"

section \<open>The simulation runs of the two notebooks\<close>

text \<open>
  Outside of its functions and classes a notebook is a sequence of cells, each a sequence
  of statements that call the libraries or the notebook's own functions. A run is
  modelled as its cells in the order of the notebook, a cell as the calls it makes in the
  order it makes them; a loop over the particles appears as one call, and \<open>print\<close>,
  \<open>deepcopy\<close> and the reading of attributes are left out.
\<close>

datatype call =
    Call_initialize_system
  | Call_create_NonBonndedForce
  | Call_CustomExternalForce
  | Call_force_addParticle
  | Call_system_addForce
  | Call_VerletIntegrator
  | Call_VelocityVerletIntegrator
  | Call_EulerIntegrator
  | Call_create_topology
  | Call_Simulation
  | Call_setPositions
  | Call_setVelocities
  | Call_setVelocitiesToTemperature
  | Call_minimizeEnergy
  | Call_DCDReporter
  | Call_StateDataReporter
  | Call_EnergyReporter
  | Call_reporters_append
  | Call_step
  | Call_getState
  | Call_from_openmm
  | Call_boxvectors2length
  | Call_Trajectory
  | Call_load_dcd
  | Call_viz_traj
  | Call_genfromtxt
  | Call_plt

text \<open>
  The plotting cell that ends a run of the first notebook: \<open>plt.title\<close>, three times
  \<open>plt.plot\<close>, \<open>plt.xlabel\<close>, \<open>plt.ylabel\<close>, \<open>plt.legend\<close>.
\<close>

definition plot_cell :: "call list" where
  "plot_cell = replicate 7 Call_plt"

definition reporters_cell :: "call list" where
  "reporters_cell =
     [Call_DCDReporter, Call_reporters_append, Call_StateDataReporter, Call_reporters_append]"

definition load_and_view_cell :: "call list" where
  "load_and_view_cell = [Call_from_openmm, Call_load_dcd, Call_viz_traj]"

text \<open>First notebook, section "Normal Simulation".\<close>

definition reference_run :: "call list list" where
  "reference_run =
     [[Call_initialize_system, Call_create_NonBonndedForce, Call_system_addForce,
       Call_VerletIntegrator, Call_create_topology],
      [Call_Simulation],
      [Call_setPositions, Call_setVelocitiesToTemperature],
      [Call_minimizeEnergy],
      reporters_cell,
      [Call_step],
      load_and_view_cell,
      [Call_genfromtxt],
      plot_cell]"

text \<open>First notebook, section "Simulation of an own Integrator".\<close>

definition euler_run :: "call list list" where
  "euler_run =
     [[Call_initialize_system, Call_create_NonBonndedForce, Call_system_addForce,
       Call_create_topology],
      [Call_EulerIntegrator],
      [Call_Simulation],
      [Call_setPositions, Call_setVelocitiesToTemperature],
      [Call_minimizeEnergy],
      reporters_cell,
      [Call_step],
      load_and_view_cell,
      [Call_genfromtxt],
      plot_cell]"

text \<open>First notebook, section "Init starting values".\<close>

definition equilibration_run :: "call list list" where
  "equilibration_run =
     [[Call_initialize_system, Call_create_NonBonndedForce, Call_system_addForce,
       Call_VerletIntegrator, Call_create_topology, Call_Simulation,
       Call_setPositions, Call_setVelocitiesToTemperature,
       Call_minimizeEnergy,
       Call_step],
      [Call_getState]]"

text \<open>
  First notebook, section "test integrators": the three integrators are made before the
  loop, each iteration of the loop is one run, from a copy of the system and topology of
  the equilibration run, and the plot follows the loop.
\<close>

definition comparison_run :: "call list list" where
  "comparison_run =
     [[Call_VerletIntegrator, Call_VelocityVerletIntegrator, Call_EulerIntegrator],
      [Call_Simulation, Call_setPositions, Call_setVelocities,
       Call_EnergyReporter, Call_reporters_append,
       Call_step],
      plot_cell]"

text \<open>Second notebook, section "Normal Simulation", cell by cell.\<close>

definition droplet_setup_cell :: "call list" where
  "droplet_setup_cell =
     [Call_initialize_system, Call_create_NonBonndedForce, Call_system_addForce,
      Call_VerletIntegrator, Call_create_topology, Call_Simulation]"

definition droplet_view_start_cell :: "call list" where
  "droplet_view_start_cell =
     [Call_from_openmm, Call_boxvectors2length, Call_Trajectory, Call_viz_traj]"

definition droplet_view_minimized_cell :: "call list" where
  "droplet_view_minimized_cell =
     [Call_getState, Call_boxvectors2length, Call_Trajectory, Call_viz_traj]"

definition droplet_normal_run :: "call list list" where
  "droplet_normal_run =
     [droplet_setup_cell,
      [Call_setPositions],
      droplet_view_start_cell,
      [Call_minimizeEnergy],
      droplet_view_minimized_cell,
      reporters_cell,
      [Call_setVelocitiesToTemperature],
      [Call_step],
      load_and_view_cell]"

text \<open>Second notebook, section "Spherical potential", cell by cell.\<close>

definition external_force_cell :: "call list" where
  "external_force_cell =
     [Call_CustomExternalForce, Call_force_addParticle, Call_system_addForce]"

definition droplet_spherical_run :: "call list list" where
  "droplet_spherical_run =
     [[Call_initialize_system, Call_create_NonBonndedForce, Call_system_addForce,
       Call_VerletIntegrator, Call_create_topology],
      external_force_cell,
      [Call_Simulation],
      [Call_setPositions, Call_setVelocitiesToTemperature],
      [Call_minimizeEnergy],
      reporters_cell,
      [Call_step],
      load_and_view_cell]"

text \<open>
  The stages of the pipeline, in its order, and the stage a call belongs to. A call that
  only prepares an argument for a later call belongs to no stage of its own: building the
  topology, building a reporter before it is appended, reading the state or the box,
  converting a topology or building a one-frame trajectory for the viewer.
\<close>

datatype stage =
    ConfigureSystem
  | AttachForceField
  | PickIntegrator
  | InstantiateContext
  | SetInitialState
  | Minimize
  | AttachReporters
  | AdvanceSteps
  | LoadTrajectory
  | Visualize
  | PlotDiagnostics

fun stage_index :: "stage \<Rightarrow> nat" where
  "stage_index ConfigureSystem = 0"
| "stage_index AttachForceField = 1"
| "stage_index PickIntegrator = 2"
| "stage_index InstantiateContext = 3"
| "stage_index SetInitialState = 4"
| "stage_index Minimize = 5"
| "stage_index AttachReporters = 6"
| "stage_index AdvanceSteps = 7"
| "stage_index LoadTrajectory = 8"
| "stage_index Visualize = 9"
| "stage_index PlotDiagnostics = 10"

fun stage_of :: "call \<Rightarrow> stage option" where
  "stage_of Call_initialize_system = Some ConfigureSystem"
| "stage_of Call_create_NonBonndedForce = Some AttachForceField"
| "stage_of Call_CustomExternalForce = Some AttachForceField"
| "stage_of Call_force_addParticle = Some AttachForceField"
| "stage_of Call_system_addForce = Some AttachForceField"
| "stage_of Call_VerletIntegrator = Some PickIntegrator"
| "stage_of Call_VelocityVerletIntegrator = Some PickIntegrator"
| "stage_of Call_EulerIntegrator = Some PickIntegrator"
| "stage_of Call_create_topology = None"
| "stage_of Call_Simulation = Some InstantiateContext"
| "stage_of Call_setPositions = Some SetInitialState"
| "stage_of Call_setVelocities = Some SetInitialState"
| "stage_of Call_setVelocitiesToTemperature = Some SetInitialState"
| "stage_of Call_minimizeEnergy = Some Minimize"
| "stage_of Call_DCDReporter = None"
| "stage_of Call_StateDataReporter = None"
| "stage_of Call_EnergyReporter = None"
| "stage_of Call_reporters_append = Some AttachReporters"
| "stage_of Call_step = Some AdvanceSteps"
| "stage_of Call_getState = None"
| "stage_of Call_from_openmm = None"
| "stage_of Call_boxvectors2length = None"
| "stage_of Call_Trajectory = None"
| "stage_of Call_load_dcd = Some LoadTrajectory"
| "stage_of Call_viz_traj = Some Visualize"
| "stage_of Call_genfromtxt = Some PlotDiagnostics"
| "stage_of Call_plt = Some PlotDiagnostics"

definition stages :: "call list list \<Rightarrow> stage list" where
  "stages run = List.map_filter stage_of (concat run)"

text \<open>A run is in the pipeline's order when no stage comes before an earlier one.\<close>

definition in_pipeline_order :: "call list list \<Rightarrow> bool" where
  "in_pipeline_order run \<longleftrightarrow> sorted (map stage_index (stages run))"

section \<open>Exceptions raised by library calls\<close>

text \<open>
  None of the notebooks' functions and classes has a \<open>try\<close>, so an exception raised by a
  library call inside one of them ends that function. To state this, each of them is
  modelled a second time, with every call of a library function, method or constructor
  marked: a call either returns what the library's function returns or raises. Which
  calls raise is given from outside, as a schedule with one entry for each call in the
  order the calls are made: \<open>None\<close> when the call returns, \<open>Some e\<close> when it raises \<open>e\<close>;
  calls beyond the end of the schedule return. A computation takes the schedule and
  returns the exception, or its value and the rest of the schedule.
\<close>

type_synonym schedule = "error option list"

type_synonym 'a exc = "schedule \<Rightarrow> error + ('a \<times> schedule)"

text \<open>
  \<open>returns\<close> and \<open>raises\<close> are Python's \<open>return\<close> and \<open>raise\<close>; \<open>lift\<close> is an operation of
  Python itself (a division, an unpacking), which raises or returns by its operands alone;
  \<open>bind_exc\<close> runs a statement and then the statements after it, unless it raised.
\<close>

definition returns :: "'a \<Rightarrow> 'a exc" where
  "returns v sched = Inr (v, sched)"

definition raises :: "error \<Rightarrow> 'a exc" where
  "raises e sched = Inl e"

definition lift :: "error + 'a \<Rightarrow> 'a exc" where
  "lift r sched = (case r of Inl e \<Rightarrow> Inl e | Inr v \<Rightarrow> Inr (v, sched))"

definition bind_exc :: "'a exc \<Rightarrow> ('a \<Rightarrow> 'b exc) \<Rightarrow> 'b exc" where
  "bind_exc m f sched = (case m sched of Inl e \<Rightarrow> Inl e | Inr (v, sched') \<Rightarrow> f v sched')"

text \<open>
  A library call takes the next entry of the schedule. When the entry lets it return, a
  call that the model knows to raise on some arguments (a getter of a state without
  energies, \<open>acos\<close> outside of its domain) still raises on them.
\<close>

definition lib_call_partial :: "error + 'a \<Rightarrow> 'a exc" where
  "lib_call_partial r sched =
     (case sched of
        [] \<Rightarrow> lift r []
      | None # rest \<Rightarrow> lift r rest
      | Some e # rest \<Rightarrow> Inl e)"

definition lib_call :: "'a \<Rightarrow> 'a exc" where
  "lib_call v = lib_call_partial (Inr v)"

text \<open>A \<open>for\<close> loop over a list, threading the loop's variable through its body.\<close>

fun for_each :: "('s \<Rightarrow> 'i \<Rightarrow> 's exc) \<Rightarrow> 's \<Rightarrow> 'i list \<Rightarrow> 's exc" where
  "for_each body s [] = returns s"
| "for_each body s (i # is) = bind_exc (body s i) (\<lambda>s'. for_each body s' is)"

text \<open>The first exception that the schedule raises among the next \<open>k\<close> calls.\<close>

fun first_raised :: "nat \<Rightarrow> schedule \<Rightarrow> error option" where
  "first_raised 0 sched = None"
| "first_raised (Suc k) [] = None"
| "first_raised (Suc k) (None # rest) = first_raised k rest"
| "first_raised (Suc k) (Some e # rest) = Some e"

text \<open>
  A computation ends as \<open>r\<close> after \<open>k\<close> calls when, on every schedule, it ends with the first
  exception raised among its next \<open>k\<close> library calls and, when none of them raises, as \<open>r\<close>
  does: with the exception of \<open>r\<close>, or with its value and the schedule that is left after
  the \<open>k\<close> calls.
\<close>

definition ends_with :: "nat \<Rightarrow> 'a exc \<Rightarrow> error + 'a \<Rightarrow> bool" where
  "ends_with k m r \<longleftrightarrow>
     (\<forall>sched. m sched =
        (case first_raised k sched of Some e \<Rightarrow> Inl e | None \<Rightarrow> lift r (drop k sched)))"

text \<open>
  The functions and classes again, call by call. Arithmetic on quantities and floats,
  the building of Python lists and tuples and the appending to a list are not library
  calls; the assignment to the camera of the viewer is one, since the library handles it.
\<close>

definition initialize_system_exc :: "int \<Rightarrow> real \<Rightarrow> real \<Rightarrow> System exc" where
  "initialize_system_exc n_particles mass box_size =
     bind_exc (lib_call (map (map (\<lambda>x. x * angstrom))
                  (np_diag (map (\<lambda>i. box_size / angstrom) (py_range 3))))) (\<lambda>box_vectors.
     bind_exc (lib_call mm_System) (\<lambda>system.
     bind_exc (for_each (\<lambda>system index. lib_call (System_addParticle system mass))
                  system (py_range n_particles)) (\<lambda>system.
     bind_exc (lib_call (np_diag (map (\<lambda>i. box_size) (py_range 3)))) (\<lambda>box_vectors.
     (case box_vectors of
        [a, b, c] \<Rightarrow> lib_call_partial (setDefaultPeriodicBoxVectors system a b c)
      | _ \<Rightarrow> raises TypeError)))))"

definition create_NonBonndedForce_exc ::
  "int \<Rightarrow> double \<Rightarrow> double \<Rightarrow> double \<Rightarrow> NonbondedForce exc" where
  "create_NonBonndedForce_exc n_particles sigma epsilon charge =
     bind_exc (lib_call mm_NonbondedForce) (\<lambda>force.
     bind_exc (lib_call (setNonbondedMethod force CutoffPeriodic)) (\<lambda>force.
     bind_exc (for_each (\<lambda>force index. lib_call (Force_addParticle force charge sigma epsilon))
                  force (py_range n_particles)) (\<lambda>force.
     bind_exc (lib_call (setCutoffDistance force (double_mul (Finite 3.0) sigma))) (\<lambda>force.
     bind_exc (lib_call (setUseSwitchingFunction force True)) (\<lambda>force.
     bind_exc (lib_call (setSwitchingDistance force (double_mul (Finite 2.5) sigma))) (\<lambda>force.
     bind_exc (lib_call (setUseDispersionCorrection force True)) (\<lambda>force.
     returns force)))))))"

definition create_topology_exc :: "int \<Rightarrow> real \<Rightarrow> Topology exc" where
  "create_topology_exc n_particles box_size =
     bind_exc (lib_call app_Topology) (\<lambda>topo.
     bind_exc (lib_call (addChain topo)) (\<lambda>(chain, topo).
     bind_exc (for_each (\<lambda>topo i.
                  bind_exc (lib_call (addResidue topo ''Ar'' chain i)) (\<lambda>(residue, topo).
                  bind_exc (lib_call (Element_getBySymbol ''Ar'')) (\<lambda>element.
                  lib_call (addAtom topo ''Ar'' element residue))))
                  topo (py_range n_particles)) (\<lambda>topo.
     bind_exc (lib_call (map (map (\<lambda>x. x * angstrom))
                  (np_diag (map (\<lambda>i. box_size / angstrom) (py_range 3))))) (\<lambda>box_vectors.
     lib_call_partial (setPeriodicBoxVectors topo box_vectors)))))"

definition viz_traj_exc :: "'t \<Rightarrow> 't NGLWidget exc" where
  "viz_traj_exc traj =
     bind_exc (lib_call (show_mdtraj traj True)) (\<lambda>view.
     bind_exc (lib_call (add_spacefill view ''all'')) (\<lambda>view.
     bind_exc (lib_call (add_unitcell view)) (\<lambda>view.
     bind_exc (lib_call (set_camera view ''orthographic'')) (\<lambda>view.
     bind_exc (lib_call (center view)) (\<lambda>view.
     returns view)))))"

definition EulerIntegrator_exc :: "real \<Rightarrow> CustomIntegrator exc" where
  "EulerIntegrator_exc timestep =
     bind_exc (lib_call (mm_CustomIntegrator timestep)) (\<lambda>self.
     bind_exc (lib_call (addUpdateContextState self)) (\<lambda>self.
     bind_exc (lib_call (addComputePerDof self ''v'' ''v+dt*f/m'')) (\<lambda>self.
     bind_exc (lib_call (addComputePerDof self ''x'' ''x+dt*v'')) (\<lambda>self.
     bind_exc (lib_call (addConstrainPositions self)) (\<lambda>self.
     bind_exc (lib_call (addConstrainVelocities self)) (\<lambda>self.
     returns self))))))"

definition report_exc :: "EnergyReporter \<Rightarrow> simulation \<Rightarrow> state \<Rightarrow> EnergyReporter exc" where
  "report_exc self simulation st =
     bind_exc (lib_call_partial (getPotentialEnergy st)) (\<lambda>q.
     bind_exc (lib_call q) (\<lambda>pe.
     bind_exc (lib_call_partial (getKineticEnergy st)) (\<lambda>q.
     bind_exc (lib_call q) (\<lambda>ke.
     returns (self\<lparr>self_pe := self_pe self @ [pe],
                    self_ke := self_ke self @ [ke],
                    self_te := self_te self @ [pe + ke]\<rparr>)))))"

definition boxvectors2length_exc ::
  "real list list \<Rightarrow> ((real \<times> real \<times> real) \<times> (real \<times> real \<times> real)) exc" where
  "boxvectors2length_exc box_vectors =
     (case box_vectors of
        [[lx, _, _], [xy, ly, _], [xz, yz, lz]] \<Rightarrow>
          (let a = lx in
           bind_exc (lib_call (sqrt (ly\<^sup>2 + xy\<^sup>2))) (\<lambda>b.
           bind_exc (lib_call (sqrt (lz\<^sup>2 + xz\<^sup>2 + yz\<^sup>2))) (\<lambda>c.
           bind_exc (lift (py_div (xy * xz + ly * yz) (b * c))) (\<lambda>q.
           bind_exc (lib_call_partial (acos q)) (\<lambda>alpha.
           bind_exc (lib_call (in_degrees alpha)) (\<lambda>alpha.
           bind_exc (lift (py_div xz c)) (\<lambda>q.
           bind_exc (lib_call_partial (acos q)) (\<lambda>beta.
           bind_exc (lib_call (in_degrees beta)) (\<lambda>beta.
           bind_exc (lift (py_div yz b)) (\<lambda>q.
           bind_exc (lib_call_partial (acos q)) (\<lambda>gamma.
           bind_exc (lib_call (in_degrees gamma)) (\<lambda>gamma.
           bind_exc (lib_call (a, b, c)) (\<lambda>lengths.
           bind_exc (lib_call (alpha, beta, gamma)) (\<lambda>angles.
           returns (lengths, angles)))))))))))))))
      | _ \<Rightarrow> raises ValueError)"

text \<open>
  The number of library calls that \<open>boxvectors2length\<close> makes on an argument when no call
  is made to raise: none when the unpacking fails, two (both \<open>sqrt\<close>) up to the first
  division, the third the first \<open>acos\<close>, and so on to all ten. \<open>report\<close> makes one call when
  the state holds no energies (the first getter raises) and four otherwise.
\<close>

definition boxvectors2length_calls :: "real list list \<Rightarrow> nat" where
  "boxvectors2length_calls box_vectors =
     (case box_vectors of
        [[lx, _, _], [xy, ly, _], [xz, yz, lz]] \<Rightarrow>
          (let b = sqrt (ly\<^sup>2 + xy\<^sup>2);
               c = sqrt (lz\<^sup>2 + xz\<^sup>2 + yz\<^sup>2)
           in case py_div (xy * xz + ly * yz) (b * c) of Inl _ \<Rightarrow> 2 | Inr q \<Rightarrow>
              (case acos q of Inl _ \<Rightarrow> 3 | Inr alpha \<Rightarrow>
              (case py_div xz c of Inl _ \<Rightarrow> 4 | Inr q \<Rightarrow>
              (case acos q of Inl _ \<Rightarrow> 5 | Inr beta \<Rightarrow>
              (case py_div yz b of Inl _ \<Rightarrow> 6 | Inr q \<Rightarrow>
              (case acos q of Inl _ \<Rightarrow> 7 | Inr gamma \<Rightarrow> 10))))))
      | _ \<Rightarrow> 0)"

definition report_calls :: "state \<Rightarrow> nat" where
  "report_calls st = (if energy st = None then 1 else 4)"

text \<open>The arguments that the unpacking in \<open>boxvectors2length\<close> accepts.\<close>

definition three_by_three :: "real list list \<Rightarrow> bool" where
  "three_by_three box_vectors \<longleftrightarrow>
     length box_vectors = 3 \<and> list_all (\<lambda>row. length row = 3) box_vectors"

section \<open>Properties of the integrator\<close>

lemma parse_v: "parse_expression ''v+dt*f/m''
   = Some (Add (Var ''v'') (Div (Mul (Var ''dt'') (Var ''f'')) (Var ''m'')))"
  by (simp add: parse_expression_def parse_sum_def parse_term_def parse_factor_def
      binary_def is_letter_def is_operator_def)

lemma parse_x: "parse_expression ''x+dt*v''
   = Some (Add (Var ''x'') (Mul (Var ''dt'') (Var ''v'')))"
  by (simp add: parse_expression_def parse_sum_def parse_term_def parse_factor_def
      binary_def is_letter_def is_operator_def)

lemma EulerIntegrator_value:
  "EulerIntegrator timestep =
     \<lparr>stepSize = timestep,
      computations = [UpdateContextState, ComputePerDof ''v'' ''v+dt*f/m'',
                      ComputePerDof ''x'' ''x+dt*v'', ConstrainPositions, ConstrainVelocities]\<rparr>"
  by (simp add: EulerIntegrator_def mm_CustomIntegrator_def addUpdateContextState_def
      addComputePerDof_def addConstrainPositions_def addConstrainVelocities_def)

lemma all_some_cong:
  "(\<And>i. i \<in> set xs \<Longrightarrow> f i = Some (g i)) \<Longrightarrow> all_some (map f xs) = Some (map g xs)"
  by (induction xs) simp_all

lemma compute_v:
  assumes "well_formed sys c" and "\<forall>m \<in> set (masses sys). m \<noteq> 0"
  shows "run_computation sys dt (ComputePerDof ''v'' ''v+dt*f/m'') c =
     Some (c\<lparr>velocities :=
        map (\<lambda>i. velocities c ! i + dt * force_on sys (positions c) i / masses sys ! i)
          [0..<length (masses sys)]\<rparr>)"
proof -
  have "all_some (map (compute_dof sys dt c
            (Add (Var ''v'') (Div (Mul (Var ''dt'') (Var ''f'')) (Var ''m''))) (velocities c))
          [0..<length (masses sys)])
        = Some (map (\<lambda>i. velocities c ! i + dt * force_on sys (positions c) i / masses sys ! i)
          [0..<length (masses sys)])"
    using assms(2) by (intro all_some_cong) (simp add: compute_dof_def dof_variables_def)
  then show ?thesis
    using assms(1) by (simp add: run_computation_def parse_v)
qed

lemma compute_x:
  assumes "well_formed sys c" and "\<forall>m \<in> set (masses sys). m \<noteq> 0"
  shows "run_computation sys dt (ComputePerDof ''x'' ''x+dt*v'') c =
     Some (c\<lparr>positions :=
        map (\<lambda>i. positions c ! i + dt * velocities c ! i) [0..<length (masses sys)]\<rparr>)"
proof -
  have "all_some (map (compute_dof sys dt c
            (Add (Var ''x'') (Mul (Var ''dt'') (Var ''v''))) (positions c))
          [0..<length (masses sys)])
        = Some (map (\<lambda>i. positions c ! i + dt * velocities c ! i) [0..<length (masses sys)])"
    using assms(2) by (intro all_some_cong) (simp add: compute_dof_def dof_variables_def)
  then show ?thesis
    using assms(1) by (simp add: run_computation_def parse_x)
qed

lemma Euler_step:
  assumes wf: "well_formed sys (updateContextState sys c)"
    and ms: "\<forall>m \<in> set (masses sys). m \<noteq> 0"
  shows
   "(let c1 = updateContextState sys c;
         c2 = c1\<lparr>velocities :=
                  map (\<lambda>i. velocities c1 ! i
                            + dt * force_on sys (positions c1) i / masses sys ! i)
                    [0..<length (masses sys)]\<rparr>;
         c3 = c2\<lparr>positions :=
                  map (\<lambda>i. positions c2 ! i + dt * velocities c2 ! i)
                    [0..<length (masses sys)]\<rparr>;
         c4 = c3\<lparr>positions := applyConstraints sys (positions c3)\<rparr>;
         c5 = c4\<lparr>velocities :=
                  applyVelocityConstraints sys (positions c4) (velocities c4)\<rparr>
     in integrator_step sys (EulerIntegrator dt) c = Some c5)"
proof -
  let ?c1 = "updateContextState sys c"
  let ?c2 = "?c1\<lparr>velocities :=
                  map (\<lambda>i. velocities ?c1 ! i
                            + dt * force_on sys (positions ?c1) i / masses sys ! i)
                    [0..<length (masses sys)]\<rparr>"
  have s1: "run_computation sys dt UpdateContextState c = Some ?c1"
    by (simp add: run_computation_def)
  have s2: "run_computation sys dt (ComputePerDof ''v'' ''v+dt*f/m'') ?c1 = Some ?c2"
    using wf ms by (rule compute_v)
  have wf2: "well_formed sys ?c2"
    using wf by (simp add: well_formed_def)
  note s3 = compute_x [OF wf2 ms, of dt]
  show ?thesis
    unfolding Let_def integrator_step_def EulerIntegrator_value
    by (simp add: s1 s2 s3) (simp add: run_computation_def)
qed

lemma Euler_unconstrained:
  assumes "length xs = length ms" and "length vs = length ms"
    and "\<forall>m \<in> set ms. m \<noteq> 0"
  shows "integrator_step (unconstrained ms force) (EulerIntegrator dt)
           \<lparr>positions = xs, velocities = vs\<rparr>
         = Some \<lparr>positions = map (\<lambda>i. xs ! i + dt * (vs ! i + dt * force xs i / ms ! i))
                                [0..<length ms],
                 velocities = map (\<lambda>i. vs ! i + dt * force xs i / ms ! i) [0..<length ms]\<rparr>"
  using Euler_step [of "unconstrained ms force" "\<lparr>positions = xs, velocities = vs\<rparr>" dt] assms
  by (simp add: unconstrained_def well_formed_def Let_def)

text \<open>
  Claim C1. For every timestep \<open>dt\<close>, \<open>EulerIntegrator\<close> is the integrator with step size
  \<open>dt\<close> and exactly five computations, in this order: let the forces update the context
  state; set \<open>v\<close> to \<open>v+dt*f/m\<close>; set \<open>x\<close> to \<open>x+dt*v\<close>; constrain the positions; constrain
  the velocities. The two strings parse as velocity plus timestep times force over mass,
  and position plus timestep times velocity. One step on a context (of as many degrees of
  freedom as the system has masses, none of them zero) is the composition of the five, each
  applied to the result of the one before.
\<close>

theorem EulerIntegrator_update_rules:
  "stepSize (EulerIntegrator dt) = dt \<and>
   computations (EulerIntegrator dt)
     = [UpdateContextState, ComputePerDof ''v'' ''v+dt*f/m'', ComputePerDof ''x'' ''x+dt*v'',
        ConstrainPositions, ConstrainVelocities] \<and>
   parse_expression ''v+dt*f/m''
     = Some (Add (Var ''v'') (Div (Mul (Var ''dt'') (Var ''f'')) (Var ''m''))) \<and>
   parse_expression ''x+dt*v'' = Some (Add (Var ''x'') (Mul (Var ''dt'') (Var ''v''))) \<and>
   (well_formed sys (updateContextState sys c) \<and> (\<forall>m \<in> set (masses sys). m \<noteq> 0) \<longrightarrow>
      (let c1 = updateContextState sys c;
           c2 = c1\<lparr>velocities :=
                    map (\<lambda>i. velocities c1 ! i
                              + dt * force_on sys (positions c1) i / masses sys ! i)
                      [0..<length (masses sys)]\<rparr>;
           c3 = c2\<lparr>positions :=
                    map (\<lambda>i. positions c2 ! i + dt * velocities c2 ! i)
                      [0..<length (masses sys)]\<rparr>;
           c4 = c3\<lparr>positions := applyConstraints sys (positions c3)\<rparr>;
           c5 = c4\<lparr>velocities :=
                    applyVelocityConstraints sys (positions c4) (velocities c4)\<rparr>
       in integrator_step sys (EulerIntegrator dt) c = Some c5))"
  using Euler_step [of sys c dt]
  by (simp add: EulerIntegrator_value parse_v parse_x)

theorem EulerIntegrator_update_rules_witness:
  "well_formed (unconstrained [2] (\<lambda>xs i. 3)) \<lparr>positions = [1], velocities = [2]\<rparr> \<and>
   (2::real) \<noteq> 0 \<and>
   computations (EulerIntegrator (1 / 2))
     = [UpdateContextState, ComputePerDof ''v'' ''v+dt*f/m'', ComputePerDof ''x'' ''x+dt*v'',
        ConstrainPositions, ConstrainVelocities] \<and>
   integrator_step (unconstrained [2] (\<lambda>xs i. 3)) (EulerIntegrator (1 / 2))
       \<lparr>positions = [1], velocities = [2]\<rparr>
     = Some \<lparr>positions = [19 / 8], velocities = [11 / 4]\<rparr>"
  using EulerIntegrator_update_rules
    [of "1 / 2" "unconstrained [2] (\<lambda>xs i. 3)" "\<lparr>positions = [1], velocities = [2]\<rparr>"]
  by (simp add: unconstrained_def well_formed_def Let_def)

text \<open>
  Claim C2, as stated: one step maps an unconstrained state \<open>(x, v)\<close> with force \<open>f\<close> and
  mass \<open>m\<close> to \<open>(x + dt*v, v + dt*f/m)\<close>, the new position coming from the velocity before
  the step. It fails: with \<open>x = 0\<close>, \<open>v = 0\<close>, \<open>f = 1\<close>, \<open>m = 1\<close> and \<open>dt = 1\<close> the step does
  not end at position \<open>0 + 1*0\<close>; it ends at position 1, since the velocity is updated to
  1 first and the position rule then reads the updated velocity.
\<close>

theorem EulerIntegrator_forward_counterexample:
  "integrator_step (unconstrained [1] (\<lambda>xs i. 1)) (EulerIntegrator 1)
       \<lparr>positions = [0], velocities = [0]\<rparr>
     \<noteq> Some \<lparr>positions = [0 + 1 * 0], velocities = [0 + 1 * 1 / 1]\<rparr> \<and>
   integrator_step (unconstrained [1] (\<lambda>xs i. 1)) (EulerIntegrator 1)
       \<lparr>positions = [0], velocities = [0]\<rparr>
     = Some \<lparr>positions = [1], velocities = [1]\<rparr>"
  using Euler_unconstrained [of "[0]" "[1]" "[0]" "\<lambda>xs i. 1" 1]
  by simp

text \<open>
  Claim C2, amended. One step of \<open>EulerIntegrator\<close> on an unconstrained system whose
  masses are not zero maps, at every degree of freedom, the state \<open>(x, v)\<close> with force \<open>f\<close>
  (at the positions before the step) and mass \<open>m\<close> to \<open>(x + dt*v', v')\<close> with
  \<open>v' = v + dt*f/m\<close>: the new position is computed from the velocity already updated, the
  semi-implicit form of the Euler method.
\<close>

theorem EulerIntegrator_uses_updated_velocity:
  assumes "length xs = length ms" and "length vs = length ms"
    and "\<forall>m \<in> set ms. m \<noteq> 0"
  shows "\<exists>xs' vs'.
           integrator_step (unconstrained ms force) (EulerIntegrator dt)
               \<lparr>positions = xs, velocities = vs\<rparr>
             = Some \<lparr>positions = xs', velocities = vs'\<rparr> \<and>
           length xs' = length ms \<and> length vs' = length ms \<and>
           (\<forall>i < length ms.
              vs' ! i = vs ! i + dt * force xs i / ms ! i \<and>
              xs' ! i = xs ! i + dt * vs' ! i \<and>
              xs' ! i = xs ! i + dt * (vs ! i + dt * force xs i / ms ! i))"
  using Euler_unconstrained [OF assms, of force dt] by simp

theorem EulerIntegrator_uses_updated_velocity_witness:
  "length [1 :: real] = length [2 :: real] \<and> length [2 :: real] = length [2 :: real] \<and>
   (2::real) \<noteq> 0 \<and>
   integrator_step (unconstrained [2] (\<lambda>xs i. 3)) (EulerIntegrator (1 / 2))
       \<lparr>positions = [1], velocities = [2]\<rparr>
     = Some \<lparr>positions = [1 + 1 / 2 * (2 + 1 / 2 * 3 / 2)], velocities = [2 + 1 / 2 * 3 / 2]\<rparr>"
proof -
  obtain xs' vs' where
    step: "integrator_step (unconstrained [2] (\<lambda>xs i. 3)) (EulerIntegrator (1 / 2))
             \<lparr>positions = [1], velocities = [2]\<rparr>
           = Some \<lparr>positions = xs', velocities = vs'\<rparr>"
    and len: "length xs' = 1" "length vs' = 1"
    and v: "vs' ! 0 = 2 + 1 / 2 * 3 / 2"
    and x: "xs' ! 0 = 1 + 1 / 2 * (2 + 1 / 2 * 3 / 2)"
    using EulerIntegrator_uses_updated_velocity [of "[1]" "[2]" "[2]" "\<lambda>xs i. 3" "1 / 2"]
    by auto
  obtain a where xa: "xs' = [a]"
    using len(1) by (cases xs') simp_all
  obtain b where vb: "vs' = [b]"
    using len(2) by (cases vs') simp_all
  from step v x show ?thesis
    unfolding xa vb by simp
qed

section \<open>Properties of floating-point products\<close>

lemma round_half_even_error: "\<bar>of_int (round_half_even r) - r\<bar> \<le> 1 / 2"
proof -
  have "of_int \<lfloor>r\<rfloor> \<le> r" and "r < of_int \<lfloor>r\<rfloor> + 1"
    by linarith+
  then show ?thesis
    by (auto simp: round_half_even_def Let_def)
qed

lemma round_half_even_of_int: "round_half_even (of_int k) = k"
  by (simp add: round_half_even_def)

lemma round_half_even_nonneg: "0 \<le> r \<Longrightarrow> 0 \<le> round_half_even r"
  by (auto simp: round_half_even_def Let_def)

lemma two_powi_pos: "0 < (2::real) powi e"
  by simp

lemma two_powi_floor_log:
  assumes "0 < x"
  shows "(2::real) powi \<lfloor>log 2 x\<rfloor> \<le> x"
proof -
  have "(2::real) powi \<lfloor>log 2 x\<rfloor> = 2 powr (of_int \<lfloor>log 2 x\<rfloor>)"
    by (simp add: powr_real_of_int')
  also have "\<dots> \<le> 2 powr (log 2 x)"
    by (rule powr_mono) simp_all
  also have "\<dots> = x"
    using assms by simp
  finally show ?thesis .
qed

lemma ulp_bound: "2 powi ulp_exponent x \<le> tiny + \<bar>x\<bar> * 2 powi (- 52)"
proof (cases "\<bar>x\<bar> < 2 powi (- 1022)")
  case True
  then show ?thesis
    by (simp add: ulp_exponent_def tiny_def)
next
  case False
  have pos: "0 < \<bar>x\<bar>"
  proof -
    have "0 < (2::real) powi (- 1022)" by simp
    with False show ?thesis by linarith
  qed
  have "(2::real) powi (\<lfloor>log 2 \<bar>x\<bar>\<rfloor> - 52) = 2 powi \<lfloor>log 2 \<bar>x\<bar>\<rfloor> * 2 powi (- 52)"
    by (simp add: power_int_diff power_int_minus field_simps)
  also have "\<dots> \<le> \<bar>x\<bar> * 2 powi (- 52)"
    using two_powi_floor_log [OF pos] by (intro mult_right_mono) simp_all
  finally have "2 powi ulp_exponent x \<le> \<bar>x\<bar> * 2 powi (- 52)"
    using False by (simp add: ulp_exponent_def)
  moreover have "0 \<le> tiny" by (simp add: tiny_def)
  ultimately show ?thesis by linarith
qed

lemma round_to_double_error:
  "\<bar>round_to_double x - x\<bar> \<le> (tiny + \<bar>x\<bar> * 2 powi (- 52)) / 2"
proof -
  let ?u = "(2::real) powi ulp_exponent x"
  have u: "0 < ?u" by simp
  have "round_to_double x - x = (of_int (round_half_even (x / ?u)) - x / ?u) * ?u"
    using u by (simp add: round_to_double_def field_simps)
  then have "\<bar>round_to_double x - x\<bar> = \<bar>of_int (round_half_even (x / ?u)) - x / ?u\<bar> * ?u"
    using u by (simp add: abs_mult)
  also have "\<dots> \<le> 1 / 2 * ?u"
    using round_half_even_error [of "x / ?u"] u by (intro mult_right_mono) simp_all
  also have "\<dots> \<le> 1 / 2 * (tiny + \<bar>x\<bar> * 2 powi (- 52))"
    using ulp_bound [of x] by simp
  finally show ?thesis by simp
qed

lemma round_to_double_nonneg: "0 \<le> x \<Longrightarrow> 0 \<le> round_to_double x"
  by (simp add: round_to_double_def round_half_even_nonneg)


lemma eps_value: "(2::real) powi (- 52) = 1 / 2 ^ 52"
  by (simp add: power_int_minus field_simps)

lemma tiny_pos: "0 < tiny"
  by (simp add: tiny_def)

lemma tiny_le_1: "tiny \<le> 1"
proof -
  have "(2::real) powi (- 1074) \<le> 2 powi 0"
    by (rule power_int_increasing) simp_all
  then show ?thesis by (simp add: tiny_def)
qed

lemma normal_min: "(2::real) powi (- 1022) = 2 ^ 52 * tiny"
proof -
  have "(2::real) powi (- 1022) = 2 powi 52 * 2 powi (- 1074)"
    by (simp add: power_int_add [symmetric])
  then show ?thesis by (simp add: tiny_def)
qed

lemma subnormal_exponent:
  assumes "\<bar>x\<bar> < 2 ^ 52 * tiny"
  shows "ulp_exponent x = - 1074"
  using assms unfolding ulp_exponent_def normal_min by simp

lemma round_subnormal_value:
  assumes "\<bar>x\<bar> < 2 ^ 52 * tiny"
  shows "round_to_double x = of_int (round_half_even (x / tiny)) * tiny"
  unfolding round_to_double_def subnormal_exponent [OF assms] tiny_def ..

lemma round_subnormal:
  assumes "\<bar>of_int k\<bar> < (2::real) ^ 52"
  shows "round_to_double (of_int k * tiny) = of_int k * tiny"
proof -
  have "\<bar>of_int k * tiny\<bar> < 2 ^ 52 * tiny"
    using assms tiny_pos by (simp add: abs_mult)
  then have "round_to_double (of_int k * tiny)
      = of_int (round_half_even (of_int k * tiny / tiny)) * tiny"
    by (rule round_subnormal_value)
  also have "of_int k * tiny / tiny = (of_int k :: real)"
    using tiny_pos by simp
  finally show ?thesis
    by (simp only: round_half_even_of_int)
qed

lemma round_half_tiny:
  "round_to_double (5 / 2 * tiny) = 2 * tiny"
proof -
  have "\<bar>5 / 2 * tiny\<bar> < 2 ^ 52 * tiny"
    using tiny_pos by (simp add: abs_mult)
  then have "round_to_double (5 / 2 * tiny)
      = of_int (round_half_even (5 / 2 * tiny / tiny)) * tiny"
    by (rule round_subnormal_value)
  also have "5 / 2 * tiny / tiny = (5 / 2 :: real)"
    using tiny_pos by simp
  also have "round_half_even (5 / 2) = 2"
  proof -
    have f: "\<lfloor>5 / 2 :: real\<rfloor> = 2"
      by linarith
    show ?thesis
      by (simp add: round_half_even_def f)
  qed
  finally show ?thesis by simp
qed

lemma subnormal_multiple:
  assumes rep: "round_to_double s = s" and pos: "0 < s" and small: "s < 3 * tiny"
  shows "s = tiny \<or> s = 2 * tiny"
proof -
  have "\<bar>s\<bar> < 2 ^ 52 * tiny"
    using pos small tiny_pos by simp
  then have "round_to_double s = of_int (round_half_even (s / tiny)) * tiny"
    by (rule round_subnormal_value)
  with rep obtain k :: int where s: "s = of_int k * tiny"
    by metis
  have "0 < of_int k * tiny" and "of_int k * tiny < 3 * tiny"
    using pos small s by simp_all
  then have "0 < k" and "k < 3"
    using tiny_pos by (simp_all add: zero_less_mult_iff)
  then have "k = 1 \<or> k = 2"
    by linarith
  with s show ?thesis by auto
qed

lemma round_to_double_bounds:
  assumes "0 \<le> x"
  shows "x - (tiny + x / 2 ^ 52) / 2 \<le> round_to_double x"
    and "round_to_double x \<le> x + (tiny + x / 2 ^ 52) / 2"
proof -
  have "\<bar>round_to_double x - x\<bar> \<le> (tiny + \<bar>x\<bar> * 2 powi (- 52)) / 2"
    by (rule round_to_double_error)
  moreover have "\<bar>x\<bar> * 2 powi (- 52) = x / 2 ^ 52"
    using assms by (simp add: eps_value)
  ultimately have "\<bar>round_to_double x - x\<bar> \<le> (tiny + x / 2 ^ 52) / 2"
    by simp
  then show "x - (tiny + x / 2 ^ 52) / 2 \<le> round_to_double x"
    and "round_to_double x \<le> x + (tiny + x / 2 ^ 52) / 2"
    by linarith+
qed

lemma round_products_less:
  assumes rep: "round_to_double s = s" and pos: "0 < s"
  shows "round_to_double (5 / 2 * s) < round_to_double (3 * s)"
proof (cases "s < 3 * tiny")
  case True
  from subnormal_multiple [OF rep pos True] show ?thesis
  proof
    assume s: "s = tiny"
    have "round_to_double (3 * tiny) = 3 * tiny"
      using round_subnormal [of 3] by simp
    with s round_half_tiny tiny_pos show ?thesis by simp
  next
    assume s: "s = 2 * tiny"
    have "round_to_double (5 * tiny) = 5 * tiny" and "round_to_double (6 * tiny) = 6 * tiny"
      using round_subnormal [of 5] round_subnormal [of 6] by simp_all
    with s tiny_pos show ?thesis by simp
  qed
next
  case False
  have lo: "round_to_double (5 / 2 * s) \<le> 5 / 2 * s + (tiny + 5 / 2 * s / 2 ^ 52) / 2"
    using pos by (intro round_to_double_bounds) simp
  have hi: "3 * s - (tiny + 3 * s / 2 ^ 52) / 2 \<le> round_to_double (3 * s)"
    using pos by (intro round_to_double_bounds) simp
  have "5 / 2 * s + (tiny + 5 / 2 * s / 2 ^ 52) / 2 < 3 * s - (tiny + 3 * s / 2 ^ 52) / 2"
    using False tiny_pos by (simp; argo)
  with lo hi show ?thesis by linarith
qed

lemma round_small_finite:
  assumes "0 < s" and "s \<le> 2 ^ 1022"
  shows "round_to_double (5 / 2 * s) \<le> max_double"
proof -
  have lo: "round_to_double (5 / 2 * s) \<le> 5 / 2 * s + (tiny + 5 / 2 * s / 2 ^ 52) / 2"
    using assms(1) by (intro round_to_double_bounds) simp
  have "5 / 2 * s + (tiny + 5 / 2 * s / 2 ^ 52) / 2 \<le> max_double"
    using assms tiny_le_1 unfolding max_double_def by (simp; argo)
  with lo show ?thesis by linarith
qed

lemma round_large_overflows:
  assumes "2 ^ 1023 \<le> s"
  shows "max_double < round_to_double (5 / 2 * s)" and "max_double < round_to_double (3 * s)"
proof -
  have "(0::real) < 2 ^ 1023"
    by simp
  with assms have pos: "0 < s"
    by linarith
  have a: "5 / 2 * s - (tiny + 5 / 2 * s / 2 ^ 52) / 2 \<le> round_to_double (5 / 2 * s)"
    using pos by (intro round_to_double_bounds) simp
  have b: "3 * s - (tiny + 3 * s / 2 ^ 52) / 2 \<le> round_to_double (3 * s)"
    using pos by (intro round_to_double_bounds) simp
  have "max_double < 5 / 2 * s - (tiny + 5 / 2 * s / 2 ^ 52) / 2"
    and "max_double < 3 * s - (tiny + 3 * s / 2 ^ 52) / 2"
    using assms tiny_le_1 unfolding max_double_def by (simp; argo)+
  with a b show "max_double < round_to_double (5 / 2 * s)"
    and "max_double < round_to_double (3 * s)" by linarith+
qed

lemma double_products_less:
  assumes rep: "round_to_double s = s" and pos: "0 < s"
  shows "double_less (double_mul (Finite 2.5) (Finite s)) (double_mul (Finite 3.0) (Finite s))
         \<longleftrightarrow> double_mul (Finite 2.5) (Finite s) \<noteq> PosInf"
proof -
  have lt: "round_to_double (5 / 2 * s) < round_to_double (3 * s)"
    using rep pos by (rule round_products_less)
  have a: "0 \<le> round_to_double (5 / 2 * s)" and b: "0 \<le> round_to_double (3 * s)"
    using pos by (simp_all add: round_to_double_nonneg)
  have m: "0 < max_double"
    by (simp add: max_double_def)
  show ?thesis
    using lt a b m by (auto simp: double_of_real_def Let_def)
qed

lemma round_one: "round_to_double 1 = 1"
proof -
  have "(2::real) powi (- 1022) \<le> 2 powi 0"
    by (rule power_int_increasing) simp_all
  then have "\<not> \<bar>1::real\<bar> < 2 powi (- 1022)"
    by simp
  then have e: "ulp_exponent 1 = - 52"
    by (simp add: ulp_exponent_def)
  have "(1::real) / 2 powi (- 52) = of_int (2 ^ 52)"
    by (simp add: power_int_minus)
  then have "round_half_even (1 / 2 powi (- 52)) = 2 ^ 52"
    by (simp only: round_half_even_of_int)
  then show ?thesis
    by (simp add: round_to_double_def e power_int_minus)
qed

lemma round_two_1023: "round_to_double (2 ^ 1023) = 2 ^ 1023"
proof -
  have "(2::real) powi (- 1022) \<le> 2 powi 1023"
    by (rule power_int_increasing) simp_all
  then have big: "\<not> \<bar>2 ^ 1023 :: real\<bar> < 2 powi (- 1022)"
    by simp
  have "log 2 ((2::real) ^ 1023) = real 1023"
    by (rule log_pow_cancel) simp_all
  moreover have "\<bar>(2::real) ^ 1023\<bar> = 2 ^ 1023"
    by (rule abs_of_nonneg) (rule zero_le_power, simp)
  ultimately have "\<lfloor>log 2 \<bar>(2::real) ^ 1023\<bar>\<rfloor> = 1023"
    by (simp only: of_nat_numeral floor_numeral)
  with big have e: "ulp_exponent (2 ^ 1023) = 971"
    by (simp only: ulp_exponent_def if_False)
  have q: "(2 ^ 1023 :: real) / 2 powi 971 = of_int (2 ^ 52)"
    by simp
  show ?thesis
    unfolding round_to_double_def e q round_half_even_of_int by simp
qed

lemma is_double_1: "is_double 1"
  by (simp add: is_double_def round_one max_double_def)

lemma is_double_two_1023: "is_double (2 ^ 1023)"
  unfolding is_double_def round_two_1023 by (simp add: max_double_def)

lemma double_product_finite:
  assumes "0 < s" and "s \<le> 2 ^ 1022"
  shows "double_mul (Finite 2.5) (Finite s) \<noteq> PosInf"
proof -
  have "round_to_double (5 / 2 * s) \<le> max_double"
    using assms by (rule round_small_finite)
  then show ?thesis
    by (simp add: double_of_real_def Let_def)
qed

lemma double_products_overflow:
  assumes "2 ^ 1023 \<le> s"
  shows "double_mul (Finite 2.5) (Finite s) = PosInf"
    and "double_mul (Finite 3.0) (Finite s) = PosInf"
  using round_large_overflows [OF assms] by (simp_all add: double_of_real_def Let_def)

section \<open>Properties of the set-up functions\<close>

lemma py_range_3: "py_range 3 = [0, 1, 2]"
  by (simp add: py_range_def upt_rec numeral_3_eq_3)

lemma length_py_range: "length (py_range n) = nat n"
  by (simp add: py_range_def)

lemma py_range_Suc: "py_range (1 + int k) = py_range (int k) @ [int k]"
proof -
  have "nat (1 + int k) = Suc k" by simp
  then show ?thesis unfolding py_range_def by (simp del: of_nat_Suc)
qed

lemma np_diag3: "np_diag [a, b, c] = [[a, 0, 0], [0, b, 0], [0, 0, c]]"
  by (simp add: np_diag_def upt_rec numeral_3_eq_3)

lemma box_vectors_angstrom:
  "map (map (\<lambda>x. x * angstrom)) (np_diag (map (\<lambda>i. box_size / angstrom) (py_range 3)))
     = [[box_size, 0, 0], [0, box_size, 0], [0, 0, box_size]]"
  by (simp add: py_range_3 np_diag3 angstrom_def)

lemma add_particles:
  "foldl (\<lambda>system index. System_addParticle system mass) s xs
     = s\<lparr>particles := particles s @ replicate (length xs) mass\<rparr>"
  by (induction xs arbitrary: s) (simp_all add: System_addParticle_def replicate_app_Cons_same)

lemma reduced_box_cube:
  "reduced_box [[b, 0, 0], [0, b, 0], [0, 0, b]] \<longleftrightarrow> 0 < b"
  by (auto simp: reduced_box_def)

lemma initialize_system_value:
  "initialize_system n mass b =
     (if 0 < b
      then Inr \<lparr>particles = replicate (nat n) mass,
                defaultPeriodicBoxVectors = [[b, 0, 0], [0, b, 0], [0, 0, b]]\<rparr>
      else Inl OpenMMException)"
  by (simp add: initialize_system_def Let_def py_range_3 np_diag3 call_star3_def
      setDefaultPeriodicBoxVectors_def reduced_box_cube add_particles mm_System_def
      length_py_range)

lemma add_force_particles:
  "foldl (\<lambda>force index. Force_addParticle force charge sigma epsilon) f xs
     = f\<lparr>particleParameters :=
           particleParameters f @ replicate (length xs) (charge, sigma, epsilon)\<rparr>"
  by (induction xs arbitrary: f) (simp_all add: Force_addParticle_def replicate_app_Cons_same)

lemma create_NonBonndedForce_value:
  "create_NonBonndedForce n sigma epsilon charge =
     \<lparr>nonbondedMethod = CutoffPeriodic,
      particleParameters = replicate (nat n) (charge, sigma, epsilon),
      cutoffDistance = double_mul (Finite 3.0) sigma,
      useSwitchingFunction = True,
      switchingDistance = double_mul (Finite 2.5) sigma,
      useDispersionCorrection = True\<rparr>"
  by (simp add: create_NonBonndedForce_def Let_def add_force_particles mm_NonbondedForce_def
      setNonbondedMethod_def setCutoffDistance_def setUseSwitchingFunction_def
      setSwitchingDistance_def setUseDispersionCorrection_def length_py_range)

lemma add_atoms:
  "foldl (\<lambda>topo i.
       (case addResidue topo ''Ar'' chain i of
          (residue, topo) \<Rightarrow> addAtom topo ''Ar'' (Element_getBySymbol ''Ar'') residue))
     \<lparr>chains = cs, residues = [], atoms = [], periodicBoxVectors = pb\<rparr> (map int [0..<k])
   = \<lparr>chains = cs, residues = map (ar_residue chain) [0..<k], atoms = map ar_atom [0..<k],
      periodicBoxVectors = pb\<rparr>"
proof (induction k)
  case 0
  then show ?case by simp
next
  case (Suc k)
  then show ?case
    by (simp add: addResidue_def addAtom_def Element_getBySymbol_def
        ar_residue_def ar_atom_def nth_append list_update_append del: of_nat_Suc)
qed

lemma create_topology_value:
  "create_topology n b =
     (if 0 < b
      then Inr \<lparr>chains = [0], residues = map (ar_residue 0) [0..<nat n],
                atoms = map ar_atom [0..<nat n],
                periodicBoxVectors = Some [[b, 0, 0], [0, b, 0], [0, 0, b]]\<rparr>
      else Inl ValueError)"
  unfolding create_topology_def box_vectors_angstrom
  by (simp add: py_range_def [of n] Let_def app_Topology_def addChain_def add_atoms
      setPeriodicBoxVectors_def reduced_box_cube)


text \<open>
  Claim C4. For a particle count that is not negative: whenever \<open>initialize_system\<close>
  returns a \<open>System\<close>, it holds exactly that many particles; the \<open>NonbondedForce\<close> of
  \<open>create_NonBonndedForce\<close> holds exactly that many parameter entries; and whenever
  \<open>create_topology\<close> returns a \<open>Topology\<close>, it holds exactly that many atoms and as many
  residues, atom \<open>i\<close> being the one atom of residue \<open>i\<close>. So the three structures built for
  one count agree in length. The first and the last are returned for every positive box
  size; for any other box size the library refuses the box vectors and both functions
  raise, so that nothing is returned.
\<close>

theorem lengths_match_particle_count:
  assumes "0 \<le> n_particles"
  shows "(\<forall>system. initialize_system n_particles mass box_size = Inr system \<longrightarrow>
            int (length (particles system)) = n_particles) \<and>
         int (length (particleParameters
                (create_NonBonndedForce n_particles sigma epsilon charge))) = n_particles \<and>
         (\<forall>topo. create_topology n_particles box_size = Inr topo \<longrightarrow>
            int (length (atoms topo)) = n_particles \<and>
            int (length (residues topo)) = n_particles \<and>
            (\<forall>i < nat n_particles.
               atom_residue (atoms topo ! i) = i \<and>
               residue_atoms (residues topo ! i) = [i])) \<and>
         (0 < box_size \<longrightarrow>
            (\<exists>system. initialize_system n_particles mass box_size = Inr system) \<and>
            (\<exists>topo. create_topology n_particles box_size = Inr topo)) \<and>
         (box_size \<le> 0 \<longrightarrow>
            initialize_system n_particles mass box_size = Inl OpenMMException \<and>
            create_topology n_particles box_size = Inl ValueError)"
  using assms
  by (auto simp: initialize_system_value create_NonBonndedForce_value create_topology_value
      ar_atom_def ar_residue_def split: if_splits)

theorem lengths_match_particle_count_witness:
  "(0::int) \<le> 2 \<and> (0::real) < 5 \<and>
   initialize_system 2 (399 / 10) 5
     = Inr \<lparr>particles = [399 / 10, 399 / 10],
            defaultPeriodicBoxVectors = [[5, 0, 0], [0, 5, 0], [0, 0, 5]]\<rparr> \<and>
   length (particleParameters (create_NonBonndedForce 2 (Finite (1 / 4)) (Finite 1) (Finite 0)))
     = 2 \<and>
   create_topology 2 5
     = Inr \<lparr>chains = [0],
            residues = [ar_residue 0 0, ar_residue 0 1],
            atoms = [ar_atom 0, ar_atom 1],
            periodicBoxVectors = Some [[5, 0, 0], [0, 5, 0], [0, 0, 5]]\<rparr> \<and>
   atom_residue (ar_atom 1) = 1 \<and> residue_atoms (ar_residue 0 1) = [1] \<and>
   initialize_system 2 (399 / 10) 0 = Inl OpenMMException \<and>
   create_topology 2 0 = Inl ValueError"
  using lengths_match_particle_count [of 2 "399 / 10" 5 "Finite (1 / 4)" "Finite 1" "Finite 0"]
    lengths_match_particle_count [of 2 "399 / 10" 0 "Finite (1 / 4)" "Finite 1" "Finite 0"]
  by (simp add: initialize_system_value create_topology_value create_NonBonndedForce_value
      ar_atom_def ar_residue_def numeral_2_eq_2)



text \<open>
  Claim C10, as stated: for every \<open>sigma > 0\<close> the switching distance \<open>2.5*sigma\<close> is
  strictly less than the cutoff distance \<open>3.0*sigma\<close>. It fails for a large \<open>sigma\<close>: at
  the double 2 to the power 1023 both floating-point products overflow, both distances
  are the positive infinity, and neither is less than the other.
\<close>

theorem create_NonBonndedForce_overflow_counterexample:
  "is_double (2 ^ 1023) \<and> (0::real) < 2 ^ 1023 \<and>
   switchingDistance (create_NonBonndedForce 2 (Finite (2 ^ 1023)) (Finite 1) (Finite 0))
     = PosInf \<and>
   cutoffDistance (create_NonBonndedForce 2 (Finite (2 ^ 1023)) (Finite 1) (Finite 0))
     = PosInf \<and>
   \<not> double_less
       (switchingDistance (create_NonBonndedForce 2 (Finite (2 ^ 1023)) (Finite 1) (Finite 0)))
       (cutoffDistance (create_NonBonndedForce 2 (Finite (2 ^ 1023)) (Finite 1) (Finite 0)))"
proof -
  have "double_mul (Finite 2.5) (Finite (2 ^ 1023)) = PosInf"
    and "double_mul (Finite 3.0) (Finite (2 ^ 1023)) = PosInf"
    by (rule double_products_overflow, rule order_refl)+
  then show ?thesis
    unfolding create_NonBonndedForce_value NonbondedForce.select_convs
    using is_double_two_1023 by simp
qed

text \<open>
  Claim C10, amended. For every positive double \<open>sigma\<close>, the \<open>NonbondedForce\<close> that
  \<open>create_NonBonndedForce\<close> returns has the switching function turned on, the
  floating-point products \<open>2.5 * sigma\<close> and \<open>3.0 * sigma\<close> as its switching and cutoff
  distances, and exactly \<open>n_particles\<close> parameter entries (none for a negative count),
  each the same triple of charge, sigma and epsilon. The switching distance is strictly
  below the cutoff distance exactly when \<open>2.5 * sigma\<close> does not overflow, which is so for
  every \<open>sigma\<close> up to 2 to the power 1022.
\<close>

theorem create_NonBonndedForce_switching:
  assumes "is_double s" and "0 < s"
  shows "switchingDistance (create_NonBonndedForce n_particles (Finite s) epsilon charge)
           = double_mul (Finite 2.5) (Finite s) \<and>
         cutoffDistance (create_NonBonndedForce n_particles (Finite s) epsilon charge)
           = double_mul (Finite 3.0) (Finite s) \<and>
         useSwitchingFunction (create_NonBonndedForce n_particles (Finite s) epsilon charge) \<and>
         particleParameters (create_NonBonndedForce n_particles (Finite s) epsilon charge)
           = replicate (nat n_particles) (charge, Finite s, epsilon) \<and>
         (double_less
            (switchingDistance (create_NonBonndedForce n_particles (Finite s) epsilon charge))
            (cutoffDistance (create_NonBonndedForce n_particles (Finite s) epsilon charge))
          \<longleftrightarrow>
          switchingDistance (create_NonBonndedForce n_particles (Finite s) epsilon charge)
            \<noteq> PosInf) \<and>
         (s \<le> 2 ^ 1022 \<longrightarrow>
            double_less
              (switchingDistance (create_NonBonndedForce n_particles (Finite s) epsilon charge))
              (cutoffDistance (create_NonBonndedForce n_particles (Finite s) epsilon charge)))"
proof -
  have rep: "round_to_double s = s"
    using assms(1) by (simp add: is_double_def)
  note less = double_products_less [OF rep assms(2)]
  have fin: "s \<le> 2 ^ 1022 \<longrightarrow> double_mul (Finite 2.5) (Finite s) \<noteq> PosInf"
    using assms(2) double_product_finite by blast
  show ?thesis
    unfolding create_NonBonndedForce_value NonbondedForce.select_convs
    using less fin by blast
qed

theorem create_NonBonndedForce_switching_witness:
  "is_double 1 \<and> (0::real) < 1 \<and> (1::real) \<le> 2 ^ 1022 \<and>
   double_less
     (switchingDistance (create_NonBonndedForce 2 (Finite 1) (Finite 1) (Finite 0)))
     (cutoffDistance (create_NonBonndedForce 2 (Finite 1) (Finite 1) (Finite 0))) \<and>
   useSwitchingFunction (create_NonBonndedForce 2 (Finite 1) (Finite 1) (Finite 0)) \<and>
   particleParameters (create_NonBonndedForce 2 (Finite 1) (Finite 1) (Finite 0))
     = [(Finite 0, Finite 1, Finite 1), (Finite 0, Finite 1, Finite 1)]"
proof -
  have one: "(1::real) \<le> 2 ^ 1022"
    by (rule one_le_power) simp
  have two: "replicate (nat 2) (Finite 0, Finite 1, Finite 1)
      = [(Finite 0, Finite 1, Finite 1), (Finite 0, Finite 1, Finite 1)]"
    by (simp add: numeral_2_eq_2)
  have pos: "(0::real) < 1"
    by simp
  show ?thesis
    using create_NonBonndedForce_switching [OF is_double_1 pos, of 2 "Finite 1" "Finite 0"]
      one is_double_1 pos
    unfolding two by blast
qed

section \<open>Properties of the runs\<close>

lemmas run_cells =
  plot_cell_def reporters_cell_def load_and_view_cell_def droplet_setup_cell_def
  droplet_view_start_cell_def droplet_view_minimized_cell_def external_force_cell_def

lemma stages_droplet_normal_run:
  "stages droplet_normal_run =
     [ConfigureSystem, AttachForceField, AttachForceField, PickIntegrator, InstantiateContext,
      SetInitialState,
      Visualize,
      Minimize,
      Visualize,
      AttachReporters, AttachReporters,
      SetInitialState,
      AdvanceSteps,
      LoadTrajectory, Visualize]"
  by (simp add: stages_def droplet_normal_run_def run_cells List.map_filter_def)

lemma stages_droplet_spherical_run:
  "stages droplet_spherical_run =
     [ConfigureSystem, AttachForceField, AttachForceField, PickIntegrator,
      AttachForceField, AttachForceField, AttachForceField,
      InstantiateContext,
      SetInitialState, SetInitialState,
      Minimize,
      AttachReporters, AttachReporters,
      AdvanceSteps,
      LoadTrajectory, Visualize]"
  by (simp add: stages_def droplet_spherical_run_def run_cells List.map_filter_def)

text \<open>
  Claim C5, as stated: every run of the notebooks performs the stages of the pipeline in
  its order. The normal run of the droplet notebook does not: it views the system right
  after it has set the positions, before it minimizes, and it sets the velocities after
  it has minimized and attached its reporters.
\<close>

theorem droplet_normal_run_counterexample:
  "\<not> in_pipeline_order droplet_normal_run"
  by (simp add: in_pipeline_order_def stages_droplet_normal_run)

text \<open>
  Claim C5, amended. The runs of the first notebook (the reference run, the run with
  \<open>EulerIntegrator\<close>, the equilibration run and each run of the comparison) perform the
  stages they have in the pipeline's order. The runs of the droplet notebook do not: the
  normal run views the system before and after it minimizes and sets the velocities only
  after it has attached its reporters, and the spherical run adds its external force after
  it has picked the integrator. Without those cells both are in the pipeline's order.
\<close>

theorem runs_pipeline_order:
  "in_pipeline_order reference_run \<and>
   in_pipeline_order euler_run \<and>
   in_pipeline_order equilibration_run \<and>
   in_pipeline_order comparison_run \<and>
   \<not> in_pipeline_order droplet_normal_run \<and>
   \<not> in_pipeline_order droplet_spherical_run \<and>
   droplet_normal_run =
     [droplet_setup_cell, [Call_setPositions], droplet_view_start_cell, [Call_minimizeEnergy],
      droplet_view_minimized_cell, reporters_cell, [Call_setVelocitiesToTemperature],
      [Call_step], load_and_view_cell] \<and>
   in_pipeline_order
     [droplet_setup_cell, [Call_setPositions], [Call_minimizeEnergy],
      reporters_cell, [Call_step], load_and_view_cell] \<and>
   droplet_spherical_run =
     [[Call_initialize_system, Call_create_NonBonndedForce, Call_system_addForce,
       Call_VerletIntegrator, Call_create_topology],
      external_force_cell,
      [Call_Simulation], [Call_setPositions, Call_setVelocitiesToTemperature],
      [Call_minimizeEnergy], reporters_cell, [Call_step], load_and_view_cell] \<and>
   in_pipeline_order
     [[Call_initialize_system, Call_create_NonBonndedForce, Call_system_addForce,
       Call_VerletIntegrator, Call_create_topology],
      [Call_Simulation], [Call_setPositions, Call_setVelocitiesToTemperature],
      [Call_minimizeEnergy], reporters_cell, [Call_step], load_and_view_cell]"
proof -
  have r1: "in_pipeline_order reference_run"
    by (simp add: in_pipeline_order_def stages_def reference_run_def run_cells
        List.map_filter_def)
  have r2: "in_pipeline_order euler_run"
    by (simp add: in_pipeline_order_def stages_def euler_run_def run_cells
        List.map_filter_def)
  have r3: "in_pipeline_order equilibration_run"
    by (simp add: in_pipeline_order_def stages_def equilibration_run_def List.map_filter_def)
  have r4: "in_pipeline_order comparison_run"
    by (simp add: in_pipeline_order_def stages_def comparison_run_def run_cells
        List.map_filter_def)
  have d1: "\<not> in_pipeline_order droplet_normal_run"
    by (simp add: in_pipeline_order_def stages_droplet_normal_run)
  have d2: "\<not> in_pipeline_order droplet_spherical_run"
    by (simp add: in_pipeline_order_def stages_droplet_spherical_run)
  have d1': "in_pipeline_order
     [droplet_setup_cell, [Call_setPositions], [Call_minimizeEnergy],
      reporters_cell, [Call_step], load_and_view_cell]"
    by (simp add: in_pipeline_order_def stages_def run_cells List.map_filter_def)
  have d2': "in_pipeline_order
     [[Call_initialize_system, Call_create_NonBonndedForce, Call_system_addForce,
       Call_VerletIntegrator, Call_create_topology],
      [Call_Simulation], [Call_setPositions, Call_setVelocitiesToTemperature],
      [Call_minimizeEnergy], reporters_cell, [Call_step], load_and_view_cell]"
    by (simp add: in_pipeline_order_def stages_def run_cells List.map_filter_def)
  from r1 r2 r3 r4 d1 d2 d1' d2' show ?thesis
    by (simp add: droplet_normal_run_def droplet_spherical_run_def)
qed

section \<open>Properties of the reporter\<close>

lemma describeNextReport_value:
  "self_reportInterval self \<noteq> 0 \<Longrightarrow>
   describeNextReport self simulation =
     Inr (self_reportInterval self - currentStep simulation mod self_reportInterval self,
          False, False, False, True, None)"
  by (simp add: describeNextReport_def py_mod_def)

lemma report_value:
  "energy st = Some (p, k) \<Longrightarrow>
   report self simulation st =
     Inr (self\<lparr>self_pe := self_pe self @ [p],
               self_ke := self_ke self @ [k],
               self_te := self_te self @ [p + k]\<rparr>)"
  by (simp add: report_def getPotentialEnergy_def getKineticEnergy_def)

lemma report_raises:
  "energy st = None \<Longrightarrow> report self simulation st = Inl EnergyNotRequested"
  by (simp add: report_def getPotentialEnergy_def)

text \<open>
  Claim C3. The reporter's callback \<open>describeNextReport\<close> returns the tuple
  \<open>(steps, False, False, False, True, None)\<close>, whose booleans ask for the energies and for
  nothing else, whatever the step and the interval (a zero interval raises Python's
  \<open>ZeroDivisionError\<close>); and \<open>report\<close>, given a state that holds energies, appends the
  potential energy to \<open>_pe\<close>, the kinetic energy to \<open>_ke\<close> and their sum to \<open>_te\<close>, and
  changes nothing else of the reporter.
\<close>

theorem EnergyReporter_behaviour:
  "(self_reportInterval self \<noteq> 0 \<longrightarrow>
      describeNextReport self simulation =
        Inr (self_reportInterval self - currentStep simulation mod self_reportInterval self,
             False, False, False, True, None)) \<and>
   (self_reportInterval self = 0 \<longrightarrow>
      describeNextReport self simulation = Inl ZeroDivisionError) \<and>
   (energy st = Some (p, k) \<longrightarrow>
      report self simulation st =
        Inr (self\<lparr>self_pe := self_pe self @ [p],
                  self_ke := self_ke self @ [k],
                  self_te := self_te self @ [p + k]\<rparr>)) \<and>
   (energy st = None \<longrightarrow> report self simulation st = Inl EnergyNotRequested)"
  using describeNextReport_value [of self simulation] report_value [of st p k self simulation]
    report_raises [of st self simulation]
  by (simp add: describeNextReport_def py_mod_def)

theorem EnergyReporter_behaviour_witness:
  "describeNextReport (EnergyReporter_init 100) \<lparr>currentStep = 250\<rparr>
     = Inr (50, False, False, False, True, None) \<and>
   describeNextReport (EnergyReporter_init 0) \<lparr>currentStep = 250\<rparr> = Inl ZeroDivisionError \<and>
   report (EnergyReporter_init 100) \<lparr>currentStep = 300\<rparr> \<lparr>energy = Some (-7, 3)\<rparr>
     = Inr \<lparr>self_reportInterval = 100, self_pe = [-7], self_ke = [3], self_te = [-4]\<rparr> \<and>
   report (EnergyReporter_init 100) \<lparr>currentStep = 300\<rparr> \<lparr>energy = None\<rparr>
     = Inl EnergyNotRequested"
  using EnergyReporter_behaviour
    [of "EnergyReporter_init 100" "\<lparr>currentStep = 250\<rparr>" "\<lparr>energy = Some (-7, 3)\<rparr>" "-7" 3]
    EnergyReporter_behaviour
    [of "EnergyReporter_init 0" "\<lparr>currentStep = 250\<rparr>" "\<lparr>energy = None\<rparr>" 0 0]
    EnergyReporter_behaviour
    [of "EnergyReporter_init 100" "\<lparr>currentStep = 300\<rparr>" "\<lparr>energy = Some (-7, 3)\<rparr>" "-7" 3]
    EnergyReporter_behaviour
    [of "EnergyReporter_init 100" "\<lparr>currentStep = 300\<rparr>" "\<lparr>energy = None\<rparr>" 0 0]
  by (simp add: EnergyReporter_init_def)

text \<open>
  Claim C8. For a positive report interval and a step count that is not negative, the
  first component of the tuple returned by \<open>describeNextReport\<close> lies between 1 and the
  interval, and the current step plus that number is a multiple of the interval: the
  next report falls on a multiple of the interval and is never zero steps away.
\<close>

theorem describeNextReport_steps:
  assumes "0 < self_reportInterval self" and "0 \<le> currentStep simulation"
  shows "\<exists>steps flags.
           describeNextReport self simulation = Inr (steps, flags) \<and>
           1 \<le> steps \<and> steps \<le> self_reportInterval self \<and>
           (currentStep simulation + steps) mod self_reportInterval self = 0"
proof -
  let ?n = "self_reportInterval self" and ?c = "currentStep simulation"
  let ?steps = "?n - ?c mod ?n"
  have ret: "describeNextReport self simulation = Inr (?steps, False, False, False, True, None)"
    using assms(1) by (simp add: describeNextReport_value)
  have lo: "0 \<le> ?c mod ?n" and hi: "?c mod ?n < ?n"
    using assms(1) by simp_all
  have "(?c + ?steps) mod ?n = ((?c - ?c mod ?n) + ?n) mod ?n"
    by (simp add: algebra_simps)
  also have "\<dots> = (?c - ?c mod ?n) mod ?n"
    by simp
  also have "\<dots> = 0"
    by (simp add: minus_mod_eq_mult_div)
  finally have land: "(?c + ?steps) mod ?n = 0" .
  from ret lo hi land show ?thesis by auto
qed

theorem describeNextReport_steps_witness:
  "0 < self_reportInterval (EnergyReporter_init 100) \<and>
   0 \<le> currentStep \<lparr>currentStep = 250\<rparr> \<and>
   (\<exists>steps flags.
      describeNextReport (EnergyReporter_init 100) \<lparr>currentStep = 250\<rparr> = Inr (steps, flags) \<and>
      1 \<le> steps \<and> steps \<le> 100 \<and> (250 + steps) mod 100 = 0)"
  using describeNextReport_steps [of "EnergyReporter_init 100" "\<lparr>currentStep = 250\<rparr>"]
  by (simp add: EnergyReporter_init_def)

lemma after_report_consistent:
  "energies_consistent r \<Longrightarrow> energies_consistent (after_report r c)"
  by (auto simp: energies_consistent_def after_report_def report_def split: sum.splits)

lemma after_reports_consistent:
  "energies_consistent r \<Longrightarrow> energies_consistent (after_reports r cs)"
  unfolding after_reports_def
  by (induction cs arbitrary: r) (simp_all add: after_report_consistent)

lemma init_consistent: "energies_consistent (EnergyReporter_init n)"
  by (simp add: energies_consistent_def EnergyReporter_init_def)

lemma after_report_length:
  "length (self_te (after_report r c))
     = length (self_te r) + (if energy (snd c) = None then 0 else 1)"
  by (cases "energy (snd c)")
    (auto simp: after_report_def report_def getPotentialEnergy_def getKineticEnergy_def)

lemma after_reports_length:
  "length (self_te (after_reports r cs))
     = length (self_te r) + length (filter (\<lambda>c. energy (snd c) \<noteq> None) cs)"
  unfolding after_reports_def
  by (induction cs arbitrary: r) (simp_all add: after_report_length)

text \<open>
  Claim C9. Take a reporter as \<open>__init__\<close> builds it and call \<open>report\<close> on it any number
  of times, with any simulations and states. Afterwards \<open>_pe\<close>, \<open>_ke\<close> and \<open>_te\<close> have the
  same length, which is the number of calls that returned (a call whose state holds no
  energies raises before it appends), so the number of all calls when every state holds
  energies; and at every index the entry of \<open>_te\<close> is the sum of the entries of \<open>_pe\<close> and
  \<open>_ke\<close>.
\<close>

theorem report_lists_invariant:
  "length (self_pe (after_reports (EnergyReporter_init n) cs))
     = length (filter (\<lambda>c. energy (snd c) \<noteq> None) cs) \<and>
   length (self_ke (after_reports (EnergyReporter_init n) cs))
     = length (self_pe (after_reports (EnergyReporter_init n) cs)) \<and>
   length (self_te (after_reports (EnergyReporter_init n) cs))
     = length (self_pe (after_reports (EnergyReporter_init n) cs)) \<and>
   ((\<forall>c \<in> set cs. energy (snd c) \<noteq> None) \<longrightarrow>
      length (self_te (after_reports (EnergyReporter_init n) cs)) = length cs) \<and>
   (\<forall>i < length (self_te (after_reports (EnergyReporter_init n) cs)).
      self_te (after_reports (EnergyReporter_init n) cs) ! i
        = self_pe (after_reports (EnergyReporter_init n) cs) ! i
          + self_ke (after_reports (EnergyReporter_init n) cs) ! i)"
proof -
  let ?r = "after_reports (EnergyReporter_init n) cs"
  have inv: "energies_consistent ?r"
    by (simp add: after_reports_consistent init_consistent)
  have len: "length (self_te ?r) = length (filter (\<lambda>c. energy (snd c) \<noteq> None) cs)"
    by (simp add: after_reports_length EnergyReporter_init_def)
  have all: "(\<forall>c \<in> set cs. energy (snd c) \<noteq> None) \<longrightarrow> length (self_te ?r) = length cs"
    using len by (simp add: filter_id_conv [THEN iffD2])
  have idx: "\<forall>i < length (self_te ?r). self_te ?r ! i = self_pe ?r ! i + self_ke ?r ! i"
    using inv by (simp add: energies_consistent_def)
  from inv len all idx show ?thesis
    by (simp add: energies_consistent_def)
qed

theorem report_lists_invariant_witness:
  "after_reports (EnergyReporter_init 100)
     [(\<lparr>currentStep = 100\<rparr>, \<lparr>energy = Some (-7, 3)\<rparr>),
      (\<lparr>currentStep = 200\<rparr>, \<lparr>energy = Some (-6, 5)\<rparr>)]
     = \<lparr>self_reportInterval = 100, self_pe = [-7, -6], self_ke = [3, 5], self_te = [-4, -1]\<rparr> \<and>
   [-4, -1 :: real] ! 0 = [-7, -6] ! 0 + [3, 5] ! 0 \<and>
   [-4, -1 :: real] ! 1 = [-7, -6] ! 1 + [3, 5] ! 1"
  using report_lists_invariant [of 100
      "[(\<lparr>currentStep = 100\<rparr>, \<lparr>energy = Some (-7, 3)\<rparr>),
        (\<lparr>currentStep = 200\<rparr>, \<lparr>energy = Some (-6, 5)\<rparr>)]"]
  by (simp add: after_reports_def after_report_def report_def getPotentialEnergy_def
      getKineticEnergy_def EnergyReporter_init_def)

section \<open>Propagation of exceptions\<close>

lemma first_raised_Nil [simp]: "first_raised k [] = None"
  by (cases k) simp_all

lemma first_raised_add:
  "first_raised (k + j) sched =
     (case first_raised k sched of Some e \<Rightarrow> Some e | None \<Rightarrow> first_raised j (drop k sched))"
  by (induction k sched rule: first_raised.induct) (simp_all split: option.split)

lemma ends_with_returns: "ends_with 0 (returns v) (Inr v)"
  by (simp add: ends_with_def returns_def lift_def)

lemma ends_with_raises: "ends_with 0 (raises e) (Inl e)"
  by (simp add: ends_with_def raises_def lift_def)

lemma ends_with_lift: "ends_with 0 (lift r) r"
  by (simp add: ends_with_def)

lemma ends_with_lib_call_partial: "ends_with 1 (lib_call_partial r) r"
  unfolding ends_with_def
proof
  fix sched
  show "lib_call_partial r sched =
     (case first_raised 1 sched of Some e \<Rightarrow> Inl e | None \<Rightarrow> lift r (drop 1 sched))"
  proof (cases sched)
    case Nil
    then show ?thesis by (simp add: lib_call_partial_def)
  next
    case (Cons a rest)
    then show ?thesis by (cases a) (simp_all add: lib_call_partial_def)
  qed
qed

lemma ends_with_lib_call: "ends_with 1 (lib_call v) (Inr v)"
  unfolding lib_call_def by (rule ends_with_lib_call_partial)

lemma ends_with_bind:
  assumes m: "ends_with k m r0"
    and f: "\<And>v. r0 = Inr v \<Longrightarrow> ends_with (j v) (f v) (g v)"
  shows "ends_with (case r0 of Inl e \<Rightarrow> k | Inr v \<Rightarrow> k + j v) (bind_exc m f) (then_do r0 g)"
proof (cases r0)
  case (Inl e)
  have "bind_exc m f sched =
     (case first_raised k sched of Some e \<Rightarrow> Inl e | None \<Rightarrow> lift (Inl e) (drop k sched))"
    for sched
    using m unfolding ends_with_def Inl
    by (simp add: bind_exc_def lift_def split: option.split)
  then show ?thesis
    by (simp add: ends_with_def Inl then_do_def)
next
  case (Inr v)
  have "bind_exc m f sched =
     (case first_raised (k + j v) sched of
        Some e \<Rightarrow> Inl e | None \<Rightarrow> lift (g v) (drop (k + j v) sched))"
    for sched
  proof (cases "first_raised k sched")
    case None
    then have "m sched = Inr (v, drop k sched)"
      using m by (simp add: ends_with_def Inr lift_def)
    then have "bind_exc m f sched = f v (drop k sched)"
      by (simp add: bind_exc_def)
    also have "\<dots> = (case first_raised (j v) (drop k sched) of Some e \<Rightarrow> Inl e
                       | None \<Rightarrow> lift (g v) (drop (k + j v) sched))"
      using f [OF Inr] by (simp add: ends_with_def add.commute split: option.split)
    finally show ?thesis
      using None by (simp add: first_raised_add)
  next
    case (Some e)
    then have "m sched = Inl e"
      using m by (simp add: ends_with_def)
    then show ?thesis
      using Some by (simp add: bind_exc_def first_raised_add)
  qed
  then show ?thesis
    by (simp add: ends_with_def Inr then_do_def)
qed

lemma ends_with_bind_total:
  assumes "ends_with k m (Inr v)" and "ends_with j (f v) r"
  shows "ends_with (k + j) (bind_exc m f) r"
  using ends_with_bind [where m = m and k = k and ?r0.0 = "Inr v" and j = "\<lambda>_. j"
      and f = f and g = "\<lambda>_. r"] assms
  by (simp add: then_do_def)

lemma ends_with_bind_lib_call:
  "ends_with j (f v) r \<Longrightarrow> ends_with (1 + j) (bind_exc (lib_call v) f) r"
  by (rule ends_with_bind_total [OF ends_with_lib_call])

lemma ends_with_bind_lib_call_partial:
  "(\<And>v. r0 = Inr v \<Longrightarrow> ends_with (j v) (f v) (g v)) \<Longrightarrow>
   ends_with (case r0 of Inl e \<Rightarrow> 1 | Inr v \<Rightarrow> 1 + j v)
     (bind_exc (lib_call_partial r0) f) (then_do r0 g)"
  by (rule ends_with_bind [OF ends_with_lib_call_partial])

lemma ends_with_bind_lift:
  "(\<And>v. r0 = Inr v \<Longrightarrow> ends_with (j v) (f v) (g v)) \<Longrightarrow>
   ends_with (case r0 of Inl e \<Rightarrow> 0 | Inr v \<Rightarrow> 0 + j v)
     (bind_exc (lift r0) f) (then_do r0 g)"
  by (rule ends_with_bind [OF ends_with_lift])

lemma ends_with_for_each:
  assumes "\<And>s i. ends_with k (body s i) (Inr (g s i))"
  shows "ends_with (length xs * k) (for_each body s xs) (Inr (foldl g s xs))"
proof (induction xs arbitrary: s)
  case Nil
  show ?case by (simp add: ends_with_returns)
next
  case (Cons x xs)
  have "ends_with (k + length xs * k) (bind_exc (body s x) (\<lambda>s'. for_each body s' xs))
          (Inr (foldl g (g s x) xs))"
    using assms [of s x] Cons.IH [of "g s x"] by (rule ends_with_bind_total)
  then show ?case by simp
qed

lemma ends_with_bind_for_each:
  assumes "\<And>s i. ends_with k (body s i) (Inr (g s i))"
    and "ends_with j (f (foldl g s xs)) r"
  shows "ends_with (length xs * k + j) (bind_exc (for_each body s xs) f) r"
  using ends_with_for_each [OF assms(1)] assms(2) by (rule ends_with_bind_total)

lemma ends_with_eq: "ends_with k m r \<Longrightarrow> k = k' \<Longrightarrow> r = r' \<Longrightarrow> ends_with k' m r'"
  by simp

lemmas ends_with_rules =
  ends_with_bind_lib_call ends_with_bind_for_each ends_with_bind_lib_call_partial
  ends_with_bind_lift ends_with_lib_call ends_with_lib_call_partial ends_with_returns
  ends_with_raises

lemma initialize_system_exc_ends:
  "ends_with (nat n + 4) (initialize_system_exc n mass b) (initialize_system n mass b)"
  unfolding initialize_system_exc_def initialize_system_def Let_def call_star3_def
    py_range_3 list.map np_diag3 list.case
  apply (rule ends_with_eq)
    apply (rule ends_with_rules | simp only: list.case)+
   apply (simp_all add: py_range_def)
  done

lemma create_NonBonndedForce_exc_ends:
  "ends_with (nat n + 6) (create_NonBonndedForce_exc n sigma epsilon charge)
     (Inr (create_NonBonndedForce n sigma epsilon charge))"
  unfolding create_NonBonndedForce_exc_def create_NonBonndedForce_def Let_def
  apply (rule ends_with_eq)
    apply (rule ends_with_rules)+
   apply (simp_all add: py_range_def)
  done

lemma EulerIntegrator_exc_ends:
  "ends_with 6 (EulerIntegrator_exc timestep) (Inr (EulerIntegrator timestep))"
  unfolding EulerIntegrator_exc_def EulerIntegrator_def Let_def
  apply (rule ends_with_eq)
    apply (rule ends_with_rules)+
   apply simp_all
  done

lemma viz_traj_exc_ends:
  "ends_with 5 (viz_traj_exc traj) (Inr (viz_traj traj))"
  unfolding viz_traj_exc_def viz_traj_def Let_def
  apply (rule ends_with_eq)
    apply (rule ends_with_rules)+
   apply simp_all
  done

lemma create_topology_exc_ends:
  "ends_with (3 * nat n + 4) (create_topology_exc n b) (create_topology n b)"
  unfolding create_topology_exc_def create_topology_def Let_def addChain_def addResidue_def
    prod.case
  apply (rule ends_with_eq)
    apply (rule ends_with_rules | simp only: prod.case)+
   apply (simp_all add: py_range_def)
  done

lemma report_exc_ends:
  "ends_with (report_calls st) (report_exc self simulation st) (report self simulation st)"
  unfolding report_exc_def
  apply (rule ends_with_eq)
    apply (rule ends_with_rules)+
   apply (auto simp: report_calls_def report_def then_do_def getPotentialEnergy_def
      getKineticEnergy_def split: sum.splits option.splits)
  done

lemma boxvectors2length_exc_shaped:
  "ends_with (boxvectors2length_calls [[lx, u1, u2], [xy, ly, u3], [xz, yz, lz]])
     (boxvectors2length_exc [[lx, u1, u2], [xy, ly, u3], [xz, yz, lz]])
     (boxvectors2length [[lx, u1, u2], [xy, ly, u3], [xz, yz, lz]])"
  unfolding boxvectors2length_exc_def boxvectors2length_def boxvectors2length_calls_def
    list.case Let_def
  apply (rule ends_with_eq)
    apply (rule ends_with_rules)+
   apply (simp_all add: then_do_def split: sum.splits)
  done

lemma three_by_three_shape:
  assumes "three_by_three bv"
  obtains lx u1 u2 xy ly u3 xz yz lz where "bv = [[lx, u1, u2], [xy, ly, u3], [xz, yz, lz]]"
proof -
  from assms obtain r1 r2 r3 where bv: "bv = [r1, r2, r3]"
    by (auto simp: three_by_three_def length_Suc_conv numeral_3_eq_3)
  from assms bv obtain a1 a2 a3 b1 b2 b3 c1 c2 c3 where
    "r1 = [a1, a2, a3]" "r2 = [b1, b2, b3]" "r3 = [c1, c2, c3]"
    by (auto simp: three_by_three_def length_Suc_conv numeral_3_eq_3)
  with bv that show thesis by blast
qed

lemma not_three_by_three:
  assumes "\<not> three_by_three bv"
  shows "boxvectors2length_exc bv = raises ValueError"
    and "boxvectors2length bv = Inl ValueError"
    and "boxvectors2length_calls bv = 0"
  using assms
  by (auto simp: boxvectors2length_exc_def boxvectors2length_def boxvectors2length_calls_def
      three_by_three_def split: list.splits)

lemma boxvectors2length_exc_ends:
  "ends_with (boxvectors2length_calls bv) (boxvectors2length_exc bv) (boxvectors2length bv)"
proof (cases "three_by_three bv")
  case True
  then show ?thesis
    by (elim three_by_three_shape) (simp only: boxvectors2length_exc_shaped)
next
  case False
  then show ?thesis
    by (simp add: not_three_by_three ends_with_raises)
qed

lemma ends_withD:
  "ends_with k m r \<Longrightarrow>
   m sched = (case first_raised k sched of Some e \<Rightarrow> Inl e | None \<Rightarrow> lift r (drop k sched))"
  by (simp add: ends_with_def)

text \<open>
  Claim C6. No function or class of the notebooks catches, changes or recovers from an
  exception. Whatever calls the schedule makes raise, each of \<open>initialize_system\<close>,
  \<open>create_NonBonndedForce\<close>, \<open>create_topology\<close>, \<open>boxvectors2length\<close>, \<open>viz_traj\<close>,
  \<open>EulerIntegrator\<close> and \<open>EnergyReporter.report\<close> ends with the first exception raised
  among the library calls it makes, that very exception, and makes no call after it; when
  none of its calls is made to raise it ends as it does without a schedule, with its
  value or with the exception that the library or Python raises on its arguments (the
  refused box vectors, a division by zero, an \<open>acos\<close> outside of its domain, a state
  without energies), again unchanged. \<open>EnergyReporter.__init__\<close> and
  \<open>describeNextReport\<close> call no library; the one exception of \<open>describeNextReport\<close> is
  Python's \<open>ZeroDivisionError\<close> for a zero interval.
\<close>

theorem library_exceptions_propagate:
  "initialize_system_exc n_particles mass box_size sched =
     (case first_raised (nat n_particles + 4) sched of
        Some e \<Rightarrow> Inl e
      | None \<Rightarrow> lift (initialize_system n_particles mass box_size)
                 (drop (nat n_particles + 4) sched)) \<and>
   create_NonBonndedForce_exc n_particles sigma epsilon charge sched =
     (case first_raised (nat n_particles + 6) sched of
        Some e \<Rightarrow> Inl e
      | None \<Rightarrow> Inr (create_NonBonndedForce n_particles sigma epsilon charge,
                     drop (nat n_particles + 6) sched)) \<and>
   create_topology_exc n_particles box_size sched =
     (case first_raised (3 * nat n_particles + 4) sched of
        Some e \<Rightarrow> Inl e
      | None \<Rightarrow> lift (create_topology n_particles box_size)
                 (drop (3 * nat n_particles + 4) sched)) \<and>
   boxvectors2length_exc box_vectors sched =
     (case first_raised (boxvectors2length_calls box_vectors) sched of
        Some e \<Rightarrow> Inl e
      | None \<Rightarrow> lift (boxvectors2length box_vectors)
                 (drop (boxvectors2length_calls box_vectors) sched)) \<and>
   viz_traj_exc traj sched =
     (case first_raised 5 sched of
        Some e \<Rightarrow> Inl e
      | None \<Rightarrow> Inr (viz_traj traj, drop 5 sched)) \<and>
   EulerIntegrator_exc timestep sched =
     (case first_raised 6 sched of
        Some e \<Rightarrow> Inl e
      | None \<Rightarrow> Inr (EulerIntegrator timestep, drop 6 sched)) \<and>
   report_exc self simulation st sched =
     (case first_raised (report_calls st) sched of
        Some e \<Rightarrow> Inl e
      | None \<Rightarrow> lift (report self simulation st) (drop (report_calls st) sched)) \<and>
   (describeNextReport self simulation = Inl e0 \<longleftrightarrow>
      e0 = ZeroDivisionError \<and> self_reportInterval self = 0)"
proof -
  have a: "initialize_system_exc n_particles mass box_size sched =
     (case first_raised (nat n_particles + 4) sched of
        Some e \<Rightarrow> Inl e
      | None \<Rightarrow> lift (initialize_system n_particles mass box_size)
                 (drop (nat n_particles + 4) sched))"
    by (rule ends_withD [OF initialize_system_exc_ends])
  have b: "create_NonBonndedForce_exc n_particles sigma epsilon charge sched =
     (case first_raised (nat n_particles + 6) sched of
        Some e \<Rightarrow> Inl e
      | None \<Rightarrow> Inr (create_NonBonndedForce n_particles sigma epsilon charge,
                     drop (nat n_particles + 6) sched))"
    by (simp add: ends_withD [OF create_NonBonndedForce_exc_ends] lift_def
        split: option.split)
  have c: "create_topology_exc n_particles box_size sched =
     (case first_raised (3 * nat n_particles + 4) sched of
        Some e \<Rightarrow> Inl e
      | None \<Rightarrow> lift (create_topology n_particles box_size)
                 (drop (3 * nat n_particles + 4) sched))"
    by (rule ends_withD [OF create_topology_exc_ends])
  have d: "boxvectors2length_exc box_vectors sched =
     (case first_raised (boxvectors2length_calls box_vectors) sched of
        Some e \<Rightarrow> Inl e
      | None \<Rightarrow> lift (boxvectors2length box_vectors)
                 (drop (boxvectors2length_calls box_vectors) sched))"
    by (rule ends_withD [OF boxvectors2length_exc_ends])
  have e: "viz_traj_exc traj sched =
     (case first_raised 5 sched of
        Some e \<Rightarrow> Inl e
      | None \<Rightarrow> Inr (viz_traj traj, drop 5 sched))"
    by (simp add: ends_withD [OF viz_traj_exc_ends] lift_def split: option.split)
  have f: "EulerIntegrator_exc timestep sched =
     (case first_raised 6 sched of
        Some e \<Rightarrow> Inl e
      | None \<Rightarrow> Inr (EulerIntegrator timestep, drop 6 sched))"
    by (simp add: ends_withD [OF EulerIntegrator_exc_ends] lift_def split: option.split)
  have g: "report_exc self simulation st sched =
     (case first_raised (report_calls st) sched of
        Some e \<Rightarrow> Inl e
      | None \<Rightarrow> lift (report self simulation st) (drop (report_calls st) sched))"
    by (rule ends_withD [OF report_exc_ends])
  have h: "describeNextReport self simulation = Inl e0 \<longleftrightarrow>
      e0 = ZeroDivisionError \<and> self_reportInterval self = 0"
    by (auto simp: describeNextReport_def py_mod_def)
  from a b c d e f g h show ?thesis
    by blast
qed

theorem library_exceptions_propagate_witness:
  "initialize_system_exc 2 (399 / 10) 5 [None, None, Some (LibraryError ''failed'')]
     = Inl (LibraryError ''failed'') \<and>
   create_NonBonndedForce_exc 2 (Finite 1) (Finite 1) (Finite 0)
       [None, None, Some (LibraryError ''failed'')]
     = Inl (LibraryError ''failed'') \<and>
   create_topology_exc 2 5 [None, None, Some (LibraryError ''failed'')]
     = Inl (LibraryError ''failed'') \<and>
   boxvectors2length_exc [[5, 0, 0], [0, 5, 0], [0, 0, 5]]
       [None, None, Some (LibraryError ''failed'')]
     = Inl (LibraryError ''failed'') \<and>
   viz_traj_exc ''trajectory'' [None, None, Some (LibraryError ''failed'')]
     = Inl (LibraryError ''failed'') \<and>
   EulerIntegrator_exc (1 / 1000) [None, None, Some (LibraryError ''failed'')]
     = Inl (LibraryError ''failed'') \<and>
   report_exc (EnergyReporter_init 100) \<lparr>currentStep = 100\<rparr> \<lparr>energy = Some (-7, 3)\<rparr>
       [None, None, Some (LibraryError ''failed'')]
     = Inl (LibraryError ''failed'') \<and>
   report_exc (EnergyReporter_init 100) \<lparr>currentStep = 100\<rparr> \<lparr>energy = None\<rparr>
       [Some (LibraryError ''failed'')]
     = Inl (LibraryError ''failed'') \<and>
   report_exc (EnergyReporter_init 100) \<lparr>currentStep = 100\<rparr> \<lparr>energy = None\<rparr> []
     = Inl EnergyNotRequested \<and>
   report_exc (EnergyReporter_init 100) \<lparr>currentStep = 100\<rparr> \<lparr>energy = Some (-7, 3)\<rparr> []
     = Inr (\<lparr>self_reportInterval = 100, self_pe = [-7], self_ke = [3], self_te = [-4]\<rparr>, []) \<and>
   initialize_system_exc 2 (399 / 10) 0 [] = Inl OpenMMException \<and>
   EulerIntegrator_exc (1 / 1000) [] = Inr (EulerIntegrator (1 / 1000), []) \<and>
   describeNextReport (EnergyReporter_init 0) \<lparr>currentStep = 100\<rparr> = Inl ZeroDivisionError"
proof -
  let ?s = "[None, None, Some (LibraryError ''failed'')]"
  have cube: "boxvectors2length_calls [[5, 0, 0], [0, 5, 0], [0, 0, 5]] = 10"
    by (simp add: boxvectors2length_calls_def py_div_def acos_def)
  have rep: "report (EnergyReporter_init 100) \<lparr>currentStep = 100\<rparr> \<lparr>energy = Some (-7, 3)\<rparr>
      = Inr \<lparr>self_reportInterval = 100, self_pe = [-7], self_ke = [3], self_te = [-4]\<rparr>"
    by (simp add: report_value EnergyReporter_init_def)
  have rep': "report (EnergyReporter_init 100) \<lparr>currentStep = 100\<rparr> \<lparr>energy = None\<rparr>
      = Inl EnergyNotRequested"
    by (simp add: report_raises)
  have ri: "self_reportInterval (EnergyReporter_init 0) = 0"
    by (simp add: EnergyReporter_init_def)
  have ini: "initialize_system 2 (399 / 10) 0 = Inl OpenMMException"
    by (simp add: initialize_system_value)
  note raised = library_exceptions_propagate
    [of 2 "399 / 10" 5 ?s "Finite 1" "Finite 1" "Finite 0" "[[5, 0, 0], [0, 5, 0], [0, 0, 5]]"
       "''trajectory''" "1 / 1000" "EnergyReporter_init 100" "\<lparr>currentStep = 100\<rparr>"
       "\<lparr>energy = Some (-7, 3)\<rparr>" ZeroDivisionError]
  note raised_first = library_exceptions_propagate
    [of 2 "399 / 10" 5 "[Some (LibraryError ''failed'')]" "Finite 1" "Finite 1" "Finite 0"
       "[[5, 0, 0], [0, 5, 0], [0, 0, 5]]"
       "''trajectory''" "1 / 1000" "EnergyReporter_init 100" "\<lparr>currentStep = 100\<rparr>"
       "\<lparr>energy = None\<rparr>" ZeroDivisionError]
  note natural = library_exceptions_propagate
    [of 2 "399 / 10" 0 "[]" "Finite 1" "Finite 1" "Finite 0" "[[5, 0, 0], [0, 5, 0], [0, 0, 5]]"
       "''trajectory''" "1 / 1000" "EnergyReporter_init 100" "\<lparr>currentStep = 100\<rparr>"
       "\<lparr>energy = None\<rparr>" ZeroDivisionError]
  note returned = library_exceptions_propagate
    [of 2 "399 / 10" 5 "[]" "Finite 1" "Finite 1" "Finite 0" "[[5, 0, 0], [0, 5, 0], [0, 0, 5]]"
       "''trajectory''" "1 / 1000" "EnergyReporter_init 100" "\<lparr>currentStep = 100\<rparr>"
       "\<lparr>energy = Some (-7, 3)\<rparr>" ZeroDivisionError]
  note zero = library_exceptions_propagate
    [of 2 "399 / 10" 5 "[]" "Finite 1" "Finite 1" "Finite 0" "[[5, 0, 0], [0, 5, 0], [0, 0, 5]]"
       "''trajectory''" "1 / 1000" "EnergyReporter_init 0" "\<lparr>currentStep = 100\<rparr>"
       "\<lparr>energy = Some (-7, 3)\<rparr>" ZeroDivisionError]
  show ?thesis
    using raised raised_first natural returned zero
    by (simp add: eval_nat_numeral cube rep rep' ri ini report_calls_def lift_def)
qed

end
